theory Spec2Isabelle
  imports Complex_Main

begin

section \<open>Values exchanged with the upstream services\<close>

text \<open>
  The handlers of \<^verbatim>\<open>main.py\<close> work on what \<^verbatim>\<open>r.json()\<close> returns: Python
  values built from \<^verbatim>\<open>None\<close>, \<^verbatim>\<open>bool\<close>, \<^verbatim>\<open>int\<close>, \<^verbatim>\<open>float\<close>,
  \<^verbatim>\<open>str\<close>, \<^verbatim>\<open>list\<close> and \<^verbatim>\<open>dict\<close> with string keys. A finite float is
  kept as the rational it denotes (the handlers never compute with one); a dict is an
  association list read with \<open>map_of\<close>.
\<close>

datatype json =
    JNull
  | JBool bool
  | JInt int
  | JFloat rat
  | JStr string
  | JArr "json list"
  | JObj "(string \<times> json) list"

text \<open>Python exceptions that no handler catches, and the \<^verbatim>\<open>HTTPException\<close> of FastAPI
  with its \<^verbatim>\<open>status_code\<close> and \<^verbatim>\<open>detail\<close>.\<close>

datatype pyexc =
    AttributeError
  | IndexError
  | KeyError
  | TypeError
  | ValidationError
  | JSONDecodeError

datatype exn =
    HTTPException nat string
  | Uncaught pyexc

section \<open>Constants of the module\<close>

definition ALPHAFOLD_BASE :: string where
  "ALPHAFOLD_BASE = ''https://alphafold.ebi.ac.uk''"

definition UNIPROT_SEARCH_URL :: string where
  "UNIPROT_SEARCH_URL = ''https://rest.uniprot.org/uniprotkb/search''"

definition RETRIES :: nat where
  "RETRIES = 2"

section \<open>Library behaviour taken as a parameter\<close>

text \<open>
  Four pieces of behaviour belong to pydantic and to the Python runtime, not to the
  module: the lax conversions pydantic applies to an input that is not already of the
  declared type (\<open>lax_int\<close>, \<open>lax_float\<close>), its URL parser for \<^verbatim>\<open>HttpUrl\<close>
  (\<open>parse_url\<close>: \<open>None\<close> when the string is rejected, otherwise the text of the parsed
  URL), and \<^verbatim>\<open>str()\<close> of a value that is not a string (\<open>py_repr\<close>), which an
  f-string applies. The model takes them as a record and every general theorem holds for
  all of them.
\<close>

record library =
  lax_int :: "json \<Rightarrow> int option"
  lax_float :: "json \<Rightarrow> rat option"
  parse_url :: "string \<Rightarrow> string option"
  py_repr :: "json \<Rightarrow> string"

text \<open>An instance that converts nothing and keeps a URL as it is written, for
  evaluating the model at concrete inputs.\<close>

definition exact_library :: library where
  "exact_library =
     \<lparr>lax_int = (\<lambda>v. None), lax_float = (\<lambda>v. None), parse_url = Some,
      py_repr = (\<lambda>v. ''?'')\<rparr>"

section \<open>The shared client and what a request does\<close>

text \<open>
  \<^verbatim>\<open>client.get\<close> either raises an \<^verbatim>\<open>httpx.HTTPError\<close> (kept as its
  \<^verbatim>\<open>str()\<close>) or returns a response. A response has a status code, the text of the
  \<^verbatim>\<open>HTTPStatusError\<close> that \<^verbatim>\<open>raise_for_status\<close> builds for it, and a body
  that \<^verbatim>\<open>r.json()\<close> either parses or rejects (\<open>None\<close>).
  \<^verbatim>\<open>raise_for_status\<close> raises for every status outside 200 to 299.
\<close>

record response =
  status_code :: nat
  status_error :: string
  json_body :: "json option"

datatype outcome =
    Raises string
  | Returns response

text \<open>What a handler does to the outside world, in order.\<close>

datatype event =
    Get string "(string \<times> json) list"
  | Sleep rat

text \<open>The upstream services: the outcome of a request, given everything that happened
  before it.\<close>

type_synonym upstream = "event list \<Rightarrow> string \<Rightarrow> (string \<times> json) list \<Rightarrow> outcome"

text \<open>\<^verbatim>\<open>_get\<close> returns the parsed body, or the response itself when
  \<^verbatim>\<open>expect_json\<close> is false.\<close>

datatype fetched =
    Parsed json
  | Raw response

definition raise_for_status :: "response \<Rightarrow> string + response" where
  "raise_for_status r =
     (if 200 \<le> status_code r \<and> status_code r < 300 then Inr r else Inl (status_error r))"

text \<open>The f-string rendering of \<^verbatim>\<open>last_exc\<close>, which starts as \<^verbatim>\<open>None\<close>.\<close>

definition format_exc :: "string option \<Rightarrow> string" where
  "format_exc last_exc = (case last_exc of None \<Rightarrow> ''None'' | Some e \<Rightarrow> e)"

text \<open>
  The loop of \<^verbatim>\<open>_get\<close> over the attempts still to make. Each attempt is one
  \<open>Get\<close>; a failure is remembered and followed by a sleep of \<^verbatim>\<open>0.25 * (attempt + 1)\<close>
  seconds; a body that is not JSON raises past the \<^verbatim>\<open>except httpx.HTTPError\<close>;
  leaving the loop raises the 502.
\<close>

fun get_loop ::
  "upstream \<Rightarrow> string \<Rightarrow> bool \<Rightarrow> (string \<times> json) list \<Rightarrow> nat list \<Rightarrow> string option \<Rightarrow>
   event list \<Rightarrow> (exn + fetched) \<times> event list" where
  "get_loop client url expect_json params [] last_exc tr =
     (Inl (HTTPException 502 (''Upstream error: '' @ format_exc last_exc)), tr)"
| "get_loop client url expect_json params (attempt # rest) last_exc tr =
     (case (case client tr url params of
              Raises exc \<Rightarrow> Inl exc
            | Returns r \<Rightarrow> raise_for_status r) of
        Inr r \<Rightarrow>
          (if expect_json then
             (case json_body r of
                None \<Rightarrow> (Inl (Uncaught JSONDecodeError), tr @ [Get url params])
              | Some v \<Rightarrow> (Inr (Parsed v), tr @ [Get url params]))
           else (Inr (Raw r), tr @ [Get url params]))
      | Inl exc \<Rightarrow>
          get_loop client url expect_json params rest (Some exc)
            (tr @ [Get url params, Sleep (0.25 * of_nat (attempt + 1))]))"

definition private_get ::
  "upstream \<Rightarrow> string \<Rightarrow> bool \<Rightarrow> (string \<times> json) list \<Rightarrow> event list \<Rightarrow>
   (exn + fetched) \<times> event list" where
  "private_get client url expect_json params tr =
     get_loop client url expect_json params [0..<RETRIES + 1] None tr"

text \<open>An attempt fails when the request raises or the status is not 2xx; its error is
  what \<^verbatim>\<open>last_exc\<close> then holds.\<close>

fun attempt_error :: "outcome \<Rightarrow> string option" where
  "attempt_error (Raises exc) = Some exc"
| "attempt_error (Returns r) =
     (case raise_for_status r of Inl exc \<Rightarrow> Some exc | Inr r' \<Rightarrow> None)"

definition is_get :: "event \<Rightarrow> bool" where
  "is_get e = (case e of Get url params \<Rightarrow> True | Sleep d \<Rightarrow> False)"

text \<open>A client whose every request has the same outcome.\<close>

definition always :: "outcome \<Rightarrow> upstream" where
  "always out = (\<lambda>tr url params. out)"

section \<open>Python operations on parsed values\<close>

text \<open>Truth value of a parsed value, as \<^verbatim>\<open>not x\<close> tests it.\<close>

fun truthy :: "json \<Rightarrow> bool" where
  "truthy JNull = False"
| "truthy (JBool b) = b"
| "truthy (JInt i) = (i \<noteq> 0)"
| "truthy (JFloat f) = (f \<noteq> 0)"
| "truthy (JStr s) = (s \<noteq> [])"
| "truthy (JArr xs) = (xs \<noteq> [])"
| "truthy (JObj kvs) = (kvs \<noteq> [])"

text \<open>\<^verbatim>\<open>x.get(key, fallback)\<close>: only a dict has the method.\<close>

fun method_get :: "json \<Rightarrow> string \<Rightarrow> json \<Rightarrow> exn + json" where
  "method_get (JObj kvs) key fallback =
     (case map_of kvs key of None \<Rightarrow> Inr fallback | Some v \<Rightarrow> Inr v)"
| "method_get v key fallback = Inl (Uncaught AttributeError)"

text \<open>\<^verbatim>\<open>x[0]\<close>: the first element of a list, the first character of a string;
  a dict parsed from JSON has no key \<^verbatim>\<open>0\<close>; nothing else can be subscripted.\<close>

fun index0 :: "json \<Rightarrow> exn + json" where
  "index0 (JArr []) = Inl (Uncaught IndexError)"
| "index0 (JArr (x # xs)) = Inr x"
| "index0 (JStr []) = Inl (Uncaught IndexError)"
| "index0 (JStr (c # cs)) = Inr (JStr [c])"
| "index0 (JObj kvs) = Inl (Uncaught KeyError)"
| "index0 v = Inl (Uncaught TypeError)"

text \<open>\<^verbatim>\<open>x["key"]\<close>: a dict raises KeyError on a missing key; a list or a
  string takes no string index; nothing else can be subscripted.\<close>

fun subscript :: "json \<Rightarrow> string \<Rightarrow> exn + json" where
  "subscript (JObj kvs) key =
     (case map_of kvs key of None \<Rightarrow> Inl (Uncaught KeyError) | Some v \<Rightarrow> Inr v)"
| "subscript v key = Inl (Uncaught TypeError)"

text \<open>A value inside an f-string.\<close>

definition py_str :: "library \<Rightarrow> json \<Rightarrow> string" where
  "py_str L v = (case v of JStr s \<Rightarrow> s | _ \<Rightarrow> py_repr L v)"

text \<open>Sequencing of steps that may raise.\<close>

definition bindE :: "exn + 'a \<Rightarrow> ('a \<Rightarrow> exn + 'b) \<Rightarrow> exn + 'b" where
  "bindE m f = (case m of Inl e \<Rightarrow> Inl e | Inr x \<Rightarrow> f x)"

section \<open>The PredictedStructure model\<close>

record PredictedStructure =
  entryId :: string
  uniprotAccession :: string
  uniprotId :: "string option"
  organismScientificName :: "string option"
  uniprotStart :: "int option"
  uniprotEnd :: "int option"
  modelCreatedDate :: "string option"
  pdbUrl :: "string option"
  cifUrl :: "string option"
  paeImageUrl :: "string option"
  pLDDT :: "rat option"

text \<open>
  Validation of one input against a field type: \<open>None\<close> is a validation error. A
  \<^verbatim>\<open>str\<close> field takes a string only; \<^verbatim>\<open>int\<close> and \<^verbatim>\<open>float\<close> take a
  value of their own type as it is and hand everything else to the lax conversion; an
  \<^verbatim>\<open>HttpUrl\<close> takes a string that the URL parser accepts.
\<close>

definition validate_str :: "json \<Rightarrow> string option" where
  "validate_str v = (case v of JStr s \<Rightarrow> Some s | _ \<Rightarrow> None)"

definition validate_int :: "library \<Rightarrow> json \<Rightarrow> int option" where
  "validate_int L v = (case v of JInt i \<Rightarrow> Some i | _ \<Rightarrow> lax_int L v)"

definition validate_float :: "library \<Rightarrow> json \<Rightarrow> rat option" where
  "validate_float L v = (case v of JFloat f \<Rightarrow> Some f | _ \<Rightarrow> lax_float L v)"

definition validate_url :: "library \<Rightarrow> json \<Rightarrow> string option" where
  "validate_url L v = (case v of JStr s \<Rightarrow> parse_url L s | _ \<Rightarrow> None)"

text \<open>A field declared without a default is required; a field declared
  \<^verbatim>\<open>Optional[T] = None\<close> is \<^verbatim>\<open>None\<close> when the key is missing or null.\<close>

definition required_field ::
  "(json \<Rightarrow> 'a option) \<Rightarrow> (string \<times> json) list \<Rightarrow> string \<Rightarrow> 'a option" where
  "required_field validate kvs key =
     (case map_of kvs key of None \<Rightarrow> None | Some v \<Rightarrow> validate v)"

definition optional_field ::
  "(json \<Rightarrow> 'a option) \<Rightarrow> (string \<times> json) list \<Rightarrow> string \<Rightarrow> 'a option option" where
  "optional_field validate kvs key =
     (case map_of kvs key of
        None \<Rightarrow> Some None
      | Some JNull \<Rightarrow> Some None
      | Some v \<Rightarrow> (case validate v of None \<Rightarrow> None | Some x \<Rightarrow> Some (Some x)))"

text \<open>\<^verbatim>\<open>PredictedStructure.model_validate(item)\<close>: the input must be a dict, keys
  that are not declared are ignored, and one field in error raises ValidationError.\<close>

definition model_validate :: "library \<Rightarrow> json \<Rightarrow> exn + PredictedStructure" where
  "model_validate L item =
     (case item of
        JObj kvs \<Rightarrow>
          (case
             Option.bind (required_field validate_str kvs ''entryId'') (\<lambda>f1.
             Option.bind (required_field validate_str kvs ''uniprotAccession'') (\<lambda>f2.
             Option.bind (optional_field validate_str kvs ''uniprotId'') (\<lambda>f3.
             Option.bind (optional_field validate_str kvs ''organismScientificName'') (\<lambda>f4.
             Option.bind (optional_field (validate_int L) kvs ''uniprotStart'') (\<lambda>f5.
             Option.bind (optional_field (validate_int L) kvs ''uniprotEnd'') (\<lambda>f6.
             Option.bind (optional_field validate_str kvs ''modelCreatedDate'') (\<lambda>f7.
             Option.bind (optional_field (validate_url L) kvs ''pdbUrl'') (\<lambda>f8.
             Option.bind (optional_field (validate_url L) kvs ''cifUrl'') (\<lambda>f9.
             Option.bind (optional_field (validate_url L) kvs ''paeImageUrl'') (\<lambda>f10.
             Option.bind (optional_field (validate_float L) kvs ''pLDDT'') (\<lambda>f11.
             Some \<lparr>entryId = f1, uniprotAccession = f2, uniprotId = f3,
                   organismScientificName = f4, uniprotStart = f5, uniprotEnd = f6,
                   modelCreatedDate = f7, pdbUrl = f8, cifUrl = f9, paeImageUrl = f10,
                   pLDDT = f11\<rparr>)))))))))))
           of
             None \<Rightarrow> Inl (Uncaught ValidationError)
           | Some p \<Rightarrow> Inr p)
      | _ \<Rightarrow> Inl (Uncaught ValidationError))"

text \<open>The comprehension \<^verbatim>\<open>[PredictedStructure.model_validate(item) for item in data]\<close>:
  the first item in error ends it.\<close>

fun validate_items :: "library \<Rightarrow> json list \<Rightarrow> exn + PredictedStructure list" where
  "validate_items L [] = Inr []"
| "validate_items L (item # rest) =
     (case model_validate L item of
        Inl e \<Rightarrow> Inl e
      | Inr p \<Rightarrow>
          (case validate_items L rest of
             Inl e \<Rightarrow> Inl e
           | Inr ps \<Rightarrow> Inr (p # ps)))"

section \<open>The prediction route\<close>

definition prediction_url :: "string \<Rightarrow> string" where
  "prediction_url accession = ALPHAFOLD_BASE @ ''/api/prediction/'' @ accession"

definition get_prediction ::
  "library \<Rightarrow> upstream \<Rightarrow> string \<Rightarrow> event list \<Rightarrow>
   (exn + PredictedStructure list) \<times> event list" where
  "get_prediction L client uniprot_id tr =
     (let url = prediction_url uniprot_id in
      case private_get client url True [] tr of
        (Inl e, tr') \<Rightarrow> (Inl e, tr')
      | (Inr data, tr') \<Rightarrow>
          (case data of
             Parsed (JArr items) \<Rightarrow>
               if length items = 0 then
                 (Inl (HTTPException 404
                    (''No prediction found for accession '' @ uniprot_id @ ''.'')), tr')
               else (validate_items L items, tr')
           | _ \<Rightarrow>
               (Inl (HTTPException 404
                  (''No prediction found for accession '' @ uniprot_id @ ''.'')), tr')))"

section \<open>The search route\<close>

definition search_params :: "string \<Rightarrow> (string \<times> json) list" where
  "search_params query =
     [(''query'', JStr query),
      (''fields'', JStr ''accession,gene_names,organism_name,protein_name''),
      (''format'', JStr ''json''),
      (''size'', JInt 1)]"

text \<open>Lines 92 to 94: the 404 when \<^verbatim>\<open>uni.get("results")\<close> is falsy, otherwise
  \<^verbatim>\<open>uni["results"][0]\<close>.\<close>

definition first_hit :: "string \<Rightarrow> json \<Rightarrow> exn + json" where
  "first_hit query uni =
     bindE (method_get uni ''results'' JNull) (\<lambda>results.
       if \<not> truthy results then
         Inl (HTTPException 404
           (''No UniProt entry found for query '' @ [CHR 0x27] @ query @ [CHR 0x27] @ ''.''))
       else bindE (subscript uni ''results'') index0)"

text \<open>Line 96:
  \<^verbatim>\<open>hit.get("genes", [{}])[0].get("geneName", {}).get("value", "")\<close>.\<close>

definition gene_names_of :: "json \<Rightarrow> exn + json" where
  "gene_names_of hit =
     bindE (method_get hit ''genes'' (JArr [JObj []])) (\<lambda>genes.
     bindE (index0 genes) (\<lambda>gene.
     bindE (method_get gene ''geneName'' (JObj [])) (\<lambda>gene_name.
     method_get gene_name ''value'' (JStr []))))"

text \<open>Line 97: the chain of \<^verbatim>\<open>.get\<close> through \<^verbatim>\<open>proteinDescription\<close>,
  \<^verbatim>\<open>recommendedName\<close>, \<^verbatim>\<open>fullName\<close> and \<^verbatim>\<open>value\<close>.\<close>

definition protein_name_of :: "json \<Rightarrow> exn + json" where
  "protein_name_of hit =
     bindE (method_get hit ''proteinDescription'' (JObj [])) (\<lambda>description.
     bindE (method_get description ''recommendedName'' (JObj [])) (\<lambda>recommended.
     bindE (method_get recommended ''fullName'' (JObj [])) (\<lambda>full_name.
     method_get full_name ''value'' (JStr []))))"

text \<open>Line 98: \<^verbatim>\<open>hit.get("organism", {}).get("scientificName", "")\<close>.\<close>

definition organism_of :: "json \<Rightarrow> exn + json" where
  "organism_of hit =
     bindE (method_get hit ''organism'' (JObj [])) (\<lambda>org.
     method_get org ''scientificName'' (JStr []))"

text \<open>Lines 92 to 98 on the parsed reply of the knowledge base: the accession and the
  three names, or what is raised on the way.\<close>

definition read_hit :: "string \<Rightarrow> json \<Rightarrow> exn + (json \<times> json \<times> json \<times> json)" where
  "read_hit query uni =
     bindE (first_hit query uni) (\<lambda>hit.
     bindE (subscript hit ''primaryAccession'') (\<lambda>accession.
     bindE (gene_names_of hit) (\<lambda>gene_names.
     bindE (protein_name_of hit) (\<lambda>protein_name.
     bindE (organism_of hit) (\<lambda>organism.
     Inr (accession, gene_names, protein_name, organism))))))"

text \<open>Lines 107 to 117: the returned dict, whose three \<^verbatim>\<open>model.get\<close> default to
  \<^verbatim>\<open>None\<close>.\<close>

definition search_result ::
  "string \<Rightarrow> json \<times> json \<times> json \<times> json \<Rightarrow> json \<Rightarrow> exn + json" where
  "search_result query hit_fields model =
     (case hit_fields of (accession, gene_names, protein_name, organism) \<Rightarrow>
        bindE (method_get model ''pdbUrl'' JNull) (\<lambda>pdb.
        bindE (method_get model ''cifUrl'' JNull) (\<lambda>cif.
        bindE (method_get model ''pLDDT'' JNull) (\<lambda>plddt.
        Inr (JObj
          [(''query'', JStr query),
           (''uniprot_accession'', accession),
           (''gene_name'', gene_names),
           (''protein_name'', protein_name),
           (''organism'', organism),
           (''pdbUrl'', pdb),
           (''cifUrl'', cif),
           (''pLDDT'', plddt),
           (''source'', JStr ''AlphaFold DB'')])))))"

text \<open>Lines 103 to 117 on the parsed reply of the prediction service: the 404 when
  \<^verbatim>\<open>data\<close> is falsy, otherwise the dict built from \<^verbatim>\<open>data[0]\<close>.\<close>

definition read_model ::
  "library \<Rightarrow> string \<Rightarrow> json \<times> json \<times> json \<times> json \<Rightarrow> json \<Rightarrow> exn + json" where
  "read_model L query hit_fields data =
     (if \<not> truthy data then
        Inl (HTTPException 404
          (''No AlphaFold prediction for accession '' @ py_str L (fst hit_fields) @ ''.''))
      else bindE (index0 data) (search_result query hit_fields))"

text \<open>The route: two fetches in sequence, the second one for the accession read from
  the first. A \<open>Raw\<close> response never reaches the handler (both calls leave
  \<^verbatim>\<open>expect_json\<close> at its default); it has no \<^verbatim>\<open>.get\<close> and no subscript.\<close>

definition search_by_gene ::
  "library \<Rightarrow> upstream \<Rightarrow> string \<Rightarrow> event list \<Rightarrow> (exn + json) \<times> event list" where
  "search_by_gene L client query tr =
     (case private_get client UNIPROT_SEARCH_URL True (search_params query) tr of
        (Inl e, tr1) \<Rightarrow> (Inl e, tr1)
      | (Inr (Raw r), tr1) \<Rightarrow> (Inl (Uncaught AttributeError), tr1)
      | (Inr (Parsed uni), tr1) \<Rightarrow>
          (case read_hit query uni of
             Inl e \<Rightarrow> (Inl e, tr1)
           | Inr hit_fields \<Rightarrow>
               (case private_get client (prediction_url (py_str L (fst hit_fields))) True []
                       tr1 of
                  (Inl e, tr2) \<Rightarrow> (Inl e, tr2)
                | (Inr (Raw r), tr2) \<Rightarrow> (Inl (Uncaught TypeError), tr2)
                | (Inr (Parsed data), tr2) \<Rightarrow> (read_model L query hit_fields data, tr2))))"

text \<open>A client that answers the knowledge-base URL with one outcome and every other URL
  with another, and a 200 reply with a JSON body.\<close>

definition routed :: "outcome \<Rightarrow> outcome \<Rightarrow> upstream" where
  "routed kb af = (\<lambda>tr url params. if url = UNIPROT_SEARCH_URL then kb else af)"

definition ok_json :: "json \<Rightarrow> outcome" where
  "ok_json v = Returns \<lparr>status_code = 200, status_error = [], json_body = Some v\<rparr>"

text \<open>The reply of the knowledge base in the scenario of the specification: one
  record for the query \<^verbatim>\<open>SLC6A4\<close>, with accession \<^verbatim>\<open>P31645\<close>.\<close>

definition kb_reply :: json where
  "kb_reply = JObj [(''results'',
     JArr [JObj [(''primaryAccession'', JStr ''P31645''),
                 (''genes'', JArr [JObj [(''geneName'', JObj [(''value'', JStr ''SLC6A4'')])]]),
                 (''organism'', JObj [(''scientificName'', JStr ''Homo sapiens'')])]])]"

text \<open>The same reply with the recommended protein name of the record.\<close>

definition kb_full_reply :: json where
  "kb_full_reply = JObj [(''results'',
     JArr [JObj [(''primaryAccession'', JStr ''P31645''),
                 (''genes'', JArr [JObj [(''geneName'', JObj [(''value'', JStr ''SLC6A4'')])]]),
                 (''proteinDescription'',
                    JObj [(''recommendedName'',
                      JObj [(''fullName'',
                        JObj [(''value'', JStr ''Sodium-dependent serotonin transporter'')])])]),
                 (''organism'', JObj [(''scientificName'', JStr ''Homo sapiens'')])]])]"

section \<open>The fetch helper\<close>

lemma attempts_list: "[0..<RETRIES + 1] = [0, 1, 2]"
  by (simp add: RETRIES_def upt_rec)

lemma get_loop_failed_step:
  assumes "attempt_error (client tr url params) = Some exc"
  shows "get_loop client url expect_json params (attempt # rest) last_exc tr =
         get_loop client url expect_json params rest (Some exc)
           (tr @ [Get url params, Sleep (0.25 * of_nat (attempt + 1))])"
  using assms by (cases "client tr url params") (auto split: sum.splits)

lemma private_get_attempts:
  "private_get client url expect_json params tr =
   get_loop client url expect_json params [0, 1, 2] None tr"
  unfolding private_get_def attempts_list by (rule refl)

lemma get_loop_three_failures:
  assumes a1: "attempt_error (client tr url params) = Some e1"
    and a2: "attempt_error (client (tr @ [Get url params, Sleep 0.25]) url params) = Some e2"
    and a3: "attempt_error
               (client (tr @ [Get url params, Sleep 0.25, Get url params, Sleep 0.5]) url params)
             = Some e3"
  shows "private_get client url expect_json params tr =
           (Inl (HTTPException 502 (''Upstream error: '' @ e3)),
            tr @ [Get url params, Sleep 0.25, Get url params, Sleep 0.5,
                  Get url params, Sleep 0.75])"
proof -
  have s1: "get_loop client url expect_json params [0, 1, 2] None tr =
            get_loop client url expect_json params [1, 2] (Some e1)
              (tr @ [Get url params, Sleep 0.25])"
    using a1 get_loop_failed_step [where client = client and tr = tr and url = url and params = params
        and exc = e1 and expect_json = expect_json and attempt = 0 and rest = "[1, 2]"
        and last_exc = None] by simp
  have s2: "get_loop client url expect_json params [1, 2] (Some e1)
              (tr @ [Get url params, Sleep 0.25]) =
            get_loop client url expect_json params [2] (Some e2)
              (tr @ [Get url params, Sleep 0.25, Get url params, Sleep 0.5])"
    using a2 get_loop_failed_step [where client = client and tr = "tr @ [Get url params, Sleep 0.25]"
        and url = url and params = params and exc = e2 and expect_json = expect_json
        and attempt = 1 and rest = "[2]" and last_exc = "Some e1"] by simp
  have s3: "get_loop client url expect_json params [2] (Some e2)
              (tr @ [Get url params, Sleep 0.25, Get url params, Sleep 0.5]) =
            get_loop client url expect_json params [] (Some e3)
              (tr @ [Get url params, Sleep 0.25, Get url params, Sleep 0.5,
                     Get url params, Sleep 0.75])"
    using a3 get_loop_failed_step [where client = client
        and tr = "tr @ [Get url params, Sleep 0.25, Get url params, Sleep 0.5]"
        and url = url and params = params and exc = e3 and expect_json = expect_json
        and attempt = 2 and rest = "[]" and last_exc = "Some e2"] by simp
  show ?thesis
    unfolding private_get_attempts s1 s2 s3
    by (simp add: format_exc_def)
qed







lemma get_loop_events:
  "get_loop client url expect_json params attempts last_exc tr = (r, tr') \<Longrightarrow>
   \<exists>new. tr' = tr @ new \<and> (\<forall>e \<in> set new. e = Get url params \<or> (\<exists>d. e = Sleep d))"
proof (induction attempts arbitrary: last_exc tr)
  case Nil
  then show ?case by simp
next
  case (Cons attempt rest)
  show ?case
  proof (cases "attempt_error (client tr url params)")
    case None
    then have "tr' = tr @ [Get url params]"
      using Cons.prems
      by (cases "client tr url params") (auto split: sum.splits if_splits option.splits)
    then show ?thesis by simp
  next
    case (Some exc)
    define pause where "pause = Sleep (0.25 * of_nat (attempt + 1))"
    have pause: "\<exists>d. pause = Sleep d" unfolding pause_def by blast
    from Cons.prems get_loop_failed_step [where client = client and tr = tr and url = url
        and params = params and exc = exc and expect_json = expect_json and attempt = attempt
        and rest = rest and last_exc = last_exc] Some
    have "get_loop client url expect_json params rest (Some exc)
            (tr @ [Get url params, pause]) = (r, tr')"
      unfolding pause_def by simp
    from Cons.IH [OF this] obtain new where
      new: "tr' = (tr @ [Get url params, pause]) @ new"
      "\<forall>e \<in> set new. e = Get url params \<or> (\<exists>d. e = Sleep d)" by blast
    have "tr' = tr @ ([Get url params, pause] @ new)" using new(1) by simp
    moreover have "\<forall>e \<in> set ([Get url params, pause] @ new).
                     e = Get url params \<or> (\<exists>d. e = Sleep d)"
      using new(2) pause by auto
    ultimately show ?thesis by blast
  qed
qed

lemma private_get_events:
  "private_get client url expect_json params tr = (r, tr') \<Longrightarrow>
   \<exists>new. tr' = tr @ new \<and> (\<forall>e \<in> set new. e = Get url params \<or> (\<exists>d. e = Sleep d))"
  unfolding private_get_def by (rule get_loop_events)

lemma private_get_ok_json:
  "private_get (always (ok_json v)) url True params tr = (Inr (Parsed v), tr @ [Get url params])"
  by (simp add: private_get_attempts always_def ok_json_def raise_for_status_def)

lemma search_url_is_not_prediction_url: "UNIPROT_SEARCH_URL \<noteq> prediction_url accession"
  by (simp add: UNIPROT_SEARCH_URL_def prediction_url_def ALPHAFOLD_BASE_def)

lemma private_get_routed_search:
  "private_get (routed (ok_json kb) af) UNIPROT_SEARCH_URL True params tr =
     (Inr (Parsed kb), tr @ [Get UNIPROT_SEARCH_URL params])"
  by (simp add: private_get_attempts routed_def ok_json_def raise_for_status_def)

lemma private_get_routed_prediction:
  "private_get (routed kb (ok_json af)) (prediction_url accession) True params tr =
     (Inr (Parsed af), tr @ [Get (prediction_url accession) params])"
  using search_url_is_not_prediction_url [of accession]
  by (simp add: private_get_attempts routed_def ok_json_def raise_for_status_def)

text \<open>
  Claim C3. When all three attempts of one call of the fetch helper fail (the request
  raises, or the status is not 2xx), the helper makes exactly three requests and raises
  an HTTPException with status 502 whose detail is \<^verbatim>\<open>Upstream error: \<close> followed by
  the text of the last failure.
\<close>

theorem private_get_exhausted:
  assumes a1: "attempt_error (client tr url params) = Some e1"
    and a2: "attempt_error (client (tr @ [Get url params, Sleep 0.25]) url params) = Some e2"
    and a3: "attempt_error
               (client (tr @ [Get url params, Sleep 0.25, Get url params, Sleep 0.5]) url params)
             = Some e3"
  shows "\<exists>new. private_get client url expect_json params tr =
                 (Inl (HTTPException 502 (''Upstream error: '' @ e3)), tr @ new) \<and>
               length (filter is_get new) = 3"
proof -
  let ?new = "[Get url params, Sleep 0.25, Get url params, Sleep 0.5, Get url params, Sleep 0.75]"
  have "private_get client url expect_json params tr =
        (Inl (HTTPException 502 (''Upstream error: '' @ e3)), tr @ ?new)"
    using a1 a2 a3 by (rule get_loop_three_failures)
  moreover have "length (filter is_get ?new) = 3"
    by (simp add: is_get_def)
  ultimately show ?thesis by blast
qed

theorem private_get_exhausted_witness:
  "\<exists>new. private_get (always (Raises ''timed out'')) ''u'' True [] [] =
           (Inl (HTTPException 502 ''Upstream error: timed out''), new) \<and>
         length (filter is_get new) = 3"
  using private_get_exhausted [of "always (Raises ''timed out'')" "[]" "''u''" "[]"
      "''timed out''" "''timed out''" "''timed out''" True]
  by (simp add: always_def)

text \<open>
  Claim C4. The claim has a wait of 0.25 s before the second attempt, of 0.5 s before the
  third, and none after the last. On a client whose every request times out the helper
  sleeps a third time, 0.75 s, after the last attempt has failed and before it raises
  the 502.
\<close>

theorem private_get_sleeps_after_last_attempt:
  "private_get (always (Raises ''timed out'')) ''u'' True [] [] =
     (Inl (HTTPException 502 ''Upstream error: timed out''),
      [Get ''u'' [], Sleep 0.25, Get ''u'' [], Sleep 0.5, Get ''u'' [], Sleep 0.75])"
  by (simp add: private_get_attempts always_def format_exc_def)

section \<open>The prediction route: validation and results\<close>

lemma required_str_Some:
  "required_field validate_str kvs key = Some s \<longleftrightarrow> map_of kvs key = Some (JStr s)"
  by (auto simp: required_field_def validate_str_def split: option.splits json.splits)

lemma optional_str_Some:
  assumes "optional_field validate_str kvs key = Some r"
  shows "(\<forall>s. map_of kvs key = Some (JStr s) \<longrightarrow> r = Some s) \<and>
         (map_of kvs key = None \<or> map_of kvs key = Some JNull \<longrightarrow> r = None)"
  using assms
  by (auto simp: optional_field_def validate_str_def split: option.splits json.splits)

lemma optional_int_Some:
  assumes "optional_field (validate_int L) kvs key = Some r"
  shows "(\<forall>n. map_of kvs key = Some (JInt n) \<longrightarrow> r = Some n) \<and>
         (map_of kvs key = None \<or> map_of kvs key = Some JNull \<longrightarrow> r = None)"
  using assms
  by (auto simp: optional_field_def validate_int_def split: option.splits json.splits)

lemma optional_float_Some:
  assumes "optional_field (validate_float L) kvs key = Some r"
  shows "(\<forall>f. map_of kvs key = Some (JFloat f) \<longrightarrow> r = Some f) \<and>
         (map_of kvs key = None \<or> map_of kvs key = Some JNull \<longrightarrow> r = None)"
  using assms
  by (auto simp: optional_field_def validate_float_def split: option.splits json.splits)

lemma optional_url_Some:
  assumes "optional_field (validate_url L) kvs key = Some r"
  shows "(\<forall>s. map_of kvs key = Some (JStr s) \<longrightarrow> r = parse_url L s) \<and>
         (map_of kvs key = None \<or> map_of kvs key = Some JNull \<longrightarrow> r = None)"
  using assms
  by (auto simp: optional_field_def validate_url_def split: option.splits json.splits)

lemma model_validate_Inr:
  assumes "model_validate L item = Inr p"
  shows "\<exists>kvs. item = JObj kvs \<and>
     required_field validate_str kvs ''entryId'' = Some (entryId p) \<and>
     required_field validate_str kvs ''uniprotAccession'' = Some (uniprotAccession p) \<and>
     optional_field validate_str kvs ''uniprotId'' = Some (uniprotId p) \<and>
     optional_field validate_str kvs ''organismScientificName'' = Some (organismScientificName p) \<and>
     optional_field (validate_int L) kvs ''uniprotStart'' = Some (uniprotStart p) \<and>
     optional_field (validate_int L) kvs ''uniprotEnd'' = Some (uniprotEnd p) \<and>
     optional_field validate_str kvs ''modelCreatedDate'' = Some (modelCreatedDate p) \<and>
     optional_field (validate_url L) kvs ''pdbUrl'' = Some (pdbUrl p) \<and>
     optional_field (validate_url L) kvs ''cifUrl'' = Some (cifUrl p) \<and>
     optional_field (validate_url L) kvs ''paeImageUrl'' = Some (paeImageUrl p) \<and>
     optional_field (validate_float L) kvs ''pLDDT'' = Some (pLDDT p)"
proof (cases item)
  case (JObj kvs)
  with assms show ?thesis
    unfolding model_validate_def
    by (auto split: option.splits simp: bind_eq_Some_conv)
qed (use assms in \<open>simp_all add: model_validate_def\<close>)

lemma model_validate_Inl:
  "model_validate L item = Inl e \<Longrightarrow> e = Uncaught ValidationError"
  unfolding model_validate_def
  by (cases item) (auto split: option.splits)

lemma model_validate_missing_required:
  assumes "\<forall>kvs. item = JObj kvs \<longrightarrow>
             (\<forall>s. map_of kvs ''entryId'' \<noteq> Some (JStr s)) \<or>
             (\<forall>s. map_of kvs ''uniprotAccession'' \<noteq> Some (JStr s))"
  shows "model_validate L item = Inl (Uncaught ValidationError)"
proof (cases "model_validate L item")
  case (Inl e)
  then show ?thesis using model_validate_Inl by blast
next
  case (Inr p)
  from model_validate_Inr [OF Inr] obtain kvs where
    "item = JObj kvs" "map_of kvs ''entryId'' = Some (JStr (entryId p))"
    "map_of kvs ''uniprotAccession'' = Some (JStr (uniprotAccession p))"
    unfolding required_str_Some by blast
  with assms show ?thesis by blast
qed

lemma model_validate_copies:
  assumes ok: "model_validate L item = Inr p"
  shows "\<exists>kvs. item = JObj kvs \<and>
              map_of kvs ''entryId'' = Some (JStr (entryId p)) \<and>
              map_of kvs ''uniprotAccession'' = Some (JStr (uniprotAccession p)) \<and>
              (\<forall>s. map_of kvs ''uniprotId'' = Some (JStr s) \<longrightarrow> uniprotId p = Some s) \<and>
              (\<forall>s. map_of kvs ''organismScientificName'' = Some (JStr s) \<longrightarrow>
                     organismScientificName p = Some s) \<and>
              (\<forall>n. map_of kvs ''uniprotStart'' = Some (JInt n) \<longrightarrow> uniprotStart p = Some n) \<and>
              (\<forall>n. map_of kvs ''uniprotEnd'' = Some (JInt n) \<longrightarrow> uniprotEnd p = Some n) \<and>
              (\<forall>s. map_of kvs ''modelCreatedDate'' = Some (JStr s) \<longrightarrow>
                     modelCreatedDate p = Some s) \<and>
              (\<forall>s. map_of kvs ''pdbUrl'' = Some (JStr s) \<longrightarrow> pdbUrl p = parse_url L s) \<and>
              (\<forall>s. map_of kvs ''cifUrl'' = Some (JStr s) \<longrightarrow> cifUrl p = parse_url L s) \<and>
              (\<forall>s. map_of kvs ''paeImageUrl'' = Some (JStr s) \<longrightarrow>
                     paeImageUrl p = parse_url L s) \<and>
              (\<forall>f. map_of kvs ''pLDDT'' = Some (JFloat f) \<longrightarrow> pLDDT p = Some f) \<and>
              (map_of kvs ''uniprotId'' = None \<or> map_of kvs ''uniprotId'' = Some JNull \<longrightarrow>
                 uniprotId p = None) \<and>
              (map_of kvs ''organismScientificName'' = None \<or>
               map_of kvs ''organismScientificName'' = Some JNull \<longrightarrow>
                 organismScientificName p = None) \<and>
              (map_of kvs ''uniprotStart'' = None \<or> map_of kvs ''uniprotStart'' = Some JNull \<longrightarrow>
                 uniprotStart p = None) \<and>
              (map_of kvs ''uniprotEnd'' = None \<or> map_of kvs ''uniprotEnd'' = Some JNull \<longrightarrow>
                 uniprotEnd p = None) \<and>
              (map_of kvs ''modelCreatedDate'' = None \<or>
               map_of kvs ''modelCreatedDate'' = Some JNull \<longrightarrow>
                 modelCreatedDate p = None) \<and>
              (map_of kvs ''pdbUrl'' = None \<or> map_of kvs ''pdbUrl'' = Some JNull \<longrightarrow>
                 pdbUrl p = None) \<and>
              (map_of kvs ''cifUrl'' = None \<or> map_of kvs ''cifUrl'' = Some JNull \<longrightarrow>
                 cifUrl p = None) \<and>
              (map_of kvs ''paeImageUrl'' = None \<or> map_of kvs ''paeImageUrl'' = Some JNull \<longrightarrow>
                 paeImageUrl p = None) \<and>
              (map_of kvs ''pLDDT'' = None \<or> map_of kvs ''pLDDT'' = Some JNull \<longrightarrow>
                 pLDDT p = None)"
proof -
  from model_validate_Inr [OF ok] obtain kvs where
    k0: "item = JObj kvs"
    and k1: "required_field validate_str kvs ''entryId'' = Some (entryId p)"
    and k2: "required_field validate_str kvs ''uniprotAccession'' = Some (uniprotAccession p)"
    and k3: "optional_field validate_str kvs ''uniprotId'' = Some (uniprotId p)"
    and k4: "optional_field validate_str kvs ''organismScientificName'' =
               Some (organismScientificName p)"
    and k5: "optional_field (validate_int L) kvs ''uniprotStart'' = Some (uniprotStart p)"
    and k6: "optional_field (validate_int L) kvs ''uniprotEnd'' = Some (uniprotEnd p)"
    and k7: "optional_field validate_str kvs ''modelCreatedDate'' = Some (modelCreatedDate p)"
    and k8: "optional_field (validate_url L) kvs ''pdbUrl'' = Some (pdbUrl p)"
    and k9: "optional_field (validate_url L) kvs ''cifUrl'' = Some (cifUrl p)"
    and k10: "optional_field (validate_url L) kvs ''paeImageUrl'' = Some (paeImageUrl p)"
    and k11: "optional_field (validate_float L) kvs ''pLDDT'' = Some (pLDDT p)"
    by blast
  note f1 = k1 [unfolded required_str_Some] and f2 = k2 [unfolded required_str_Some]
  note f3 = optional_str_Some [OF k3] and f4 = optional_str_Some [OF k4]
    and f5 = optional_int_Some [OF k5] and f6 = optional_int_Some [OF k6]
    and f7 = optional_str_Some [OF k7] and f8 = optional_url_Some [OF k8]
    and f9 = optional_url_Some [OF k9] and f10 = optional_url_Some [OF k10]
    and f11 = optional_float_Some [OF k11]
  show ?thesis
    apply (rule exI [of _ kvs])
    apply (intro conjI)
    subgoal by (rule k0)
    subgoal by (rule f1)
    subgoal by (rule f2)
    subgoal by (rule conjunct1 [OF f3])
    subgoal by (rule conjunct1 [OF f4])
    subgoal by (rule conjunct1 [OF f5])
    subgoal by (rule conjunct1 [OF f6])
    subgoal by (rule conjunct1 [OF f7])
    subgoal by (rule conjunct1 [OF f8])
    subgoal by (rule conjunct1 [OF f9])
    subgoal by (rule conjunct1 [OF f10])
    subgoal by (rule conjunct1 [OF f11])
    subgoal by (rule conjunct2 [OF f3])
    subgoal by (rule conjunct2 [OF f4])
    subgoal by (rule conjunct2 [OF f5])
    subgoal by (rule conjunct2 [OF f6])
    subgoal by (rule conjunct2 [OF f7])
    subgoal by (rule conjunct2 [OF f8])
    subgoal by (rule conjunct2 [OF f9])
    subgoal by (rule conjunct2 [OF f10])
    subgoal by (rule conjunct2 [OF f11])
    done
qed


lemma validate_items_invalid:
  assumes "item \<in> set items" and "model_validate L item = Inl e"
  shows "validate_items L items = Inl (Uncaught ValidationError)"
  using assms
proof (induction items)
  case Nil
  then show ?case by simp
next
  case (Cons a items)
  show ?case
  proof (cases "model_validate L a")
    case (Inl e')
    then show ?thesis using model_validate_Inl [OF Inl] by simp
  next
    case (Inr p)
    with Cons have "item \<in> set items" by auto
    with Cons have "validate_items L items = Inl (Uncaught ValidationError)" by blast
    with Inr show ?thesis by simp
  qed
qed

lemma validate_items_valid:
  assumes "\<forall>item \<in> set items. \<exists>p. model_validate L item = Inr p"
  shows "\<exists>ps. validate_items L items = Inr ps \<and> length ps = length items \<and>
              (\<forall>i < length items. model_validate L (items ! i) = Inr (ps ! i))"
  using assms
proof (induction items)
  case Nil
  then show ?case by simp
next
  case (Cons a items)
  then obtain p where p: "model_validate L a = Inr p" by auto
  from Cons obtain ps where ps: "validate_items L items = Inr ps" "length ps = length items"
    "\<forall>i < length items. model_validate L (items ! i) = Inr (ps ! i)" by auto
  have "validate_items L (a # items) = Inr (p # ps)" using p ps by simp
  moreover have "\<forall>i < length (a # items). model_validate L ((a # items) ! i) = Inr ((p # ps) ! i)"
    using p ps by (auto simp: nth_Cons split: nat.splits)
  ultimately show ?case using ps by auto
qed

lemma get_prediction_on_list:
  assumes "private_get client (prediction_url uniprot_id) True [] tr =
             (Inr (Parsed (JArr items)), tr')" and "items \<noteq> []"
  shows "get_prediction L client uniprot_id tr = (validate_items L items, tr')"
  using assms by (simp add: get_prediction_def)

text \<open>
  Claim C2. When the payload fetched for an accession is not a list, or is the empty
  list, the prediction handler raises an HTTPException with status 404 whose detail is
  \<^verbatim>\<open>No prediction found for accession \<close>, the requested accession and a full stop.
\<close>

theorem get_prediction_not_found:
  assumes "private_get client (prediction_url uniprot_id) True [] tr = (Inr data, tr')"
    and "\<forall>items. data = Parsed (JArr items) \<longrightarrow> items = []"
  shows "get_prediction L client uniprot_id tr =
           (Inl (HTTPException 404
              (''No prediction found for accession '' @ uniprot_id @ ''.'')), tr')"
  using assms
  by (auto simp: get_prediction_def split: fetched.splits json.splits)

theorem get_prediction_not_found_witness:
  "get_prediction exact_library (always (ok_json (JArr []))) ''P12345'' [] =
     (Inl (HTTPException 404 ''No prediction found for accession P12345.''),
      [Get (prediction_url ''P12345'') []])"
  using get_prediction_not_found [of "always (ok_json (JArr []))" "''P12345''" "[]"
      "Parsed (JArr [])" "[Get (prediction_url ''P12345'') []]" exact_library]
  by (simp add: private_get_ok_json)

text \<open>
  Claim C10. When the payload is a list and one of its items is not a dict, or has no
  string under \<^verbatim>\<open>entryId\<close> or under \<^verbatim>\<open>uniprotAccession\<close> (the key is missing
  or its value is of another type), the prediction handler lets pydantic's
  ValidationError escape: it returns no projection and raises no 404 or 502.
\<close>

theorem get_prediction_invalid_item:
  assumes "private_get client (prediction_url uniprot_id) True [] tr =
             (Inr (Parsed (JArr items)), tr')"
    and "item \<in> set items"
    and "\<forall>kvs. item = JObj kvs \<longrightarrow>
             (\<forall>s. map_of kvs ''entryId'' \<noteq> Some (JStr s)) \<or>
             (\<forall>s. map_of kvs ''uniprotAccession'' \<noteq> Some (JStr s))"
  shows "get_prediction L client uniprot_id tr = (Inl (Uncaught ValidationError), tr')"
proof -
  from assms(2) have "items \<noteq> []" by auto
  moreover have "validate_items L items = Inl (Uncaught ValidationError)"
    using validate_items_invalid [OF assms(2) model_validate_missing_required [OF assms(3)]] .
  ultimately show ?thesis using get_prediction_on_list [OF assms(1)] by simp
qed

theorem get_prediction_invalid_item_witness:
  "get_prediction exact_library
     (always (ok_json (JArr
        [JObj [(''entryId'', JStr ''AF-P12345-F1''), (''uniprotAccession'', JStr ''P12345'')],
         JObj [(''entryId'', JStr ''AF-P12345-F2''), (''uniprotAccession'', JInt 12345)]])))
     ''P12345'' [] =
     (Inl (Uncaught ValidationError), [Get (prediction_url ''P12345'') []])"
proof -
  let ?good = "JObj [(''entryId'', JStr ''AF-P12345-F1''), (''uniprotAccession'', JStr ''P12345'')]"
  let ?bad = "JObj [(''entryId'', JStr ''AF-P12345-F2''), (''uniprotAccession'', JInt 12345)]"
  have fetch: "private_get (always (ok_json (JArr [?good, ?bad]))) (prediction_url ''P12345'')
                 True [] [] = (Inr (Parsed (JArr [?good, ?bad])), [Get (prediction_url ''P12345'') []])"
    by (simp add: private_get_ok_json)
  have mem: "?bad \<in> set [?good, ?bad]" by simp
  have bad: "\<forall>kvs. ?bad = JObj kvs \<longrightarrow>
               (\<forall>s. map_of kvs ''entryId'' \<noteq> Some (JStr s)) \<or>
               (\<forall>s. map_of kvs ''uniprotAccession'' \<noteq> Some (JStr s))"
    by simp
  show ?thesis
    by (rule get_prediction_invalid_item [OF fetch mem bad])
qed

text \<open>
  Claim C1, as stated, fails: the payload \<^verbatim>\<open>[{}]\<close> is a list with one record, and the
  handler returns no sequence for it but lets a ValidationError escape.
\<close>

theorem get_prediction_missing_field_counterexample:
  "fst (get_prediction exact_library (always (ok_json (JArr [JObj []]))) ''P12345'' []) =
     Inl (Uncaught ValidationError)"
  by (simp add: get_prediction_def private_get_ok_json model_validate_def required_field_def)

text \<open>
  Claim C1, amended. When the payload is a non-empty list whose items all pass the
  validation of PredictedStructure, the prediction handler returns a sequence of the
  same length and in the same order. Each item is a dict; its \<^verbatim>\<open>entryId\<close> and
  \<^verbatim>\<open>uniprotAccession\<close> are strings and are copied as they are; an optional field whose
  upstream value has the declared type (string, integer, float) is copied as it is, a URL
  field holds what the URL parser returns for the upstream string, and an optional field
  that is missing or null upstream is absent.
\<close>

theorem get_prediction_projects_valid_items:
  assumes fetch: "private_get client (prediction_url uniprot_id) True [] tr =
             (Inr (Parsed (JArr items)), tr')"
    and nonempty: "items \<noteq> []"
    and valid: "\<forall>item \<in> set items. \<exists>p. model_validate L item = Inr p"
  shows "\<exists>ps. get_prediction L client uniprot_id tr = (Inr ps, tr') \<and>
           length ps = length items \<and>
           (\<forall>i < length items. \<exists>kvs. items ! i = JObj kvs \<and>
              map_of kvs ''entryId'' = Some (JStr (entryId (ps ! i))) \<and>
              map_of kvs ''uniprotAccession'' = Some (JStr (uniprotAccession (ps ! i))) \<and>
              (\<forall>s. map_of kvs ''uniprotId'' = Some (JStr s) \<longrightarrow> uniprotId (ps ! i) = Some s) \<and>
              (\<forall>s. map_of kvs ''organismScientificName'' = Some (JStr s) \<longrightarrow>
                     organismScientificName (ps ! i) = Some s) \<and>
              (\<forall>n. map_of kvs ''uniprotStart'' = Some (JInt n) \<longrightarrow> uniprotStart (ps ! i) = Some n) \<and>
              (\<forall>n. map_of kvs ''uniprotEnd'' = Some (JInt n) \<longrightarrow> uniprotEnd (ps ! i) = Some n) \<and>
              (\<forall>s. map_of kvs ''modelCreatedDate'' = Some (JStr s) \<longrightarrow>
                     modelCreatedDate (ps ! i) = Some s) \<and>
              (\<forall>s. map_of kvs ''pdbUrl'' = Some (JStr s) \<longrightarrow> pdbUrl (ps ! i) = parse_url L s) \<and>
              (\<forall>s. map_of kvs ''cifUrl'' = Some (JStr s) \<longrightarrow> cifUrl (ps ! i) = parse_url L s) \<and>
              (\<forall>s. map_of kvs ''paeImageUrl'' = Some (JStr s) \<longrightarrow>
                     paeImageUrl (ps ! i) = parse_url L s) \<and>
              (\<forall>f. map_of kvs ''pLDDT'' = Some (JFloat f) \<longrightarrow> pLDDT (ps ! i) = Some f) \<and>
              (map_of kvs ''uniprotId'' = None \<or> map_of kvs ''uniprotId'' = Some JNull \<longrightarrow>
                 uniprotId (ps ! i) = None) \<and>
              (map_of kvs ''organismScientificName'' = None \<or>
               map_of kvs ''organismScientificName'' = Some JNull \<longrightarrow>
                 organismScientificName (ps ! i) = None) \<and>
              (map_of kvs ''uniprotStart'' = None \<or> map_of kvs ''uniprotStart'' = Some JNull \<longrightarrow>
                 uniprotStart (ps ! i) = None) \<and>
              (map_of kvs ''uniprotEnd'' = None \<or> map_of kvs ''uniprotEnd'' = Some JNull \<longrightarrow>
                 uniprotEnd (ps ! i) = None) \<and>
              (map_of kvs ''modelCreatedDate'' = None \<or>
               map_of kvs ''modelCreatedDate'' = Some JNull \<longrightarrow>
                 modelCreatedDate (ps ! i) = None) \<and>
              (map_of kvs ''pdbUrl'' = None \<or> map_of kvs ''pdbUrl'' = Some JNull \<longrightarrow>
                 pdbUrl (ps ! i) = None) \<and>
              (map_of kvs ''cifUrl'' = None \<or> map_of kvs ''cifUrl'' = Some JNull \<longrightarrow>
                 cifUrl (ps ! i) = None) \<and>
              (map_of kvs ''paeImageUrl'' = None \<or> map_of kvs ''paeImageUrl'' = Some JNull \<longrightarrow>
                 paeImageUrl (ps ! i) = None) \<and>
              (map_of kvs ''pLDDT'' = None \<or> map_of kvs ''pLDDT'' = Some JNull \<longrightarrow>
                 pLDDT (ps ! i) = None))"
proof -
  from validate_items_valid [OF valid] obtain ps where
    ps: "validate_items L items = Inr ps" "length ps = length items"
    and each: "\<forall>i < length items. model_validate L (items ! i) = Inr (ps ! i)"
    by blast
  have res: "get_prediction L client uniprot_id tr = (Inr ps, tr')"
    using get_prediction_on_list [OF fetch nonempty] ps by simp
  show ?thesis
  proof (intro exI [of _ ps] conjI allI impI)
    show "get_prediction L client uniprot_id tr = (Inr ps, tr')" by (rule res)
    show "length ps = length items" by (rule ps(2))
  next
    fix i assume "i < length items"
    with each have "model_validate L (items ! i) = Inr (ps ! i)" by blast
    then show "\<exists>kvs. items ! i = JObj kvs \<and>
              map_of kvs ''entryId'' = Some (JStr (entryId (ps ! i))) \<and>
              map_of kvs ''uniprotAccession'' = Some (JStr (uniprotAccession (ps ! i))) \<and>
              (\<forall>s. map_of kvs ''uniprotId'' = Some (JStr s) \<longrightarrow> uniprotId (ps ! i) = Some s) \<and>
              (\<forall>s. map_of kvs ''organismScientificName'' = Some (JStr s) \<longrightarrow>
                     organismScientificName (ps ! i) = Some s) \<and>
              (\<forall>n. map_of kvs ''uniprotStart'' = Some (JInt n) \<longrightarrow> uniprotStart (ps ! i) = Some n) \<and>
              (\<forall>n. map_of kvs ''uniprotEnd'' = Some (JInt n) \<longrightarrow> uniprotEnd (ps ! i) = Some n) \<and>
              (\<forall>s. map_of kvs ''modelCreatedDate'' = Some (JStr s) \<longrightarrow>
                     modelCreatedDate (ps ! i) = Some s) \<and>
              (\<forall>s. map_of kvs ''pdbUrl'' = Some (JStr s) \<longrightarrow> pdbUrl (ps ! i) = parse_url L s) \<and>
              (\<forall>s. map_of kvs ''cifUrl'' = Some (JStr s) \<longrightarrow> cifUrl (ps ! i) = parse_url L s) \<and>
              (\<forall>s. map_of kvs ''paeImageUrl'' = Some (JStr s) \<longrightarrow>
                     paeImageUrl (ps ! i) = parse_url L s) \<and>
              (\<forall>f. map_of kvs ''pLDDT'' = Some (JFloat f) \<longrightarrow> pLDDT (ps ! i) = Some f) \<and>
              (map_of kvs ''uniprotId'' = None \<or> map_of kvs ''uniprotId'' = Some JNull \<longrightarrow>
                 uniprotId (ps ! i) = None) \<and>
              (map_of kvs ''organismScientificName'' = None \<or>
               map_of kvs ''organismScientificName'' = Some JNull \<longrightarrow>
                 organismScientificName (ps ! i) = None) \<and>
              (map_of kvs ''uniprotStart'' = None \<or> map_of kvs ''uniprotStart'' = Some JNull \<longrightarrow>
                 uniprotStart (ps ! i) = None) \<and>
              (map_of kvs ''uniprotEnd'' = None \<or> map_of kvs ''uniprotEnd'' = Some JNull \<longrightarrow>
                 uniprotEnd (ps ! i) = None) \<and>
              (map_of kvs ''modelCreatedDate'' = None \<or>
               map_of kvs ''modelCreatedDate'' = Some JNull \<longrightarrow>
                 modelCreatedDate (ps ! i) = None) \<and>
              (map_of kvs ''pdbUrl'' = None \<or> map_of kvs ''pdbUrl'' = Some JNull \<longrightarrow>
                 pdbUrl (ps ! i) = None) \<and>
              (map_of kvs ''cifUrl'' = None \<or> map_of kvs ''cifUrl'' = Some JNull \<longrightarrow>
                 cifUrl (ps ! i) = None) \<and>
              (map_of kvs ''paeImageUrl'' = None \<or> map_of kvs ''paeImageUrl'' = Some JNull \<longrightarrow>
                 paeImageUrl (ps ! i) = None) \<and>
              (map_of kvs ''pLDDT'' = None \<or> map_of kvs ''pLDDT'' = Some JNull \<longrightarrow>
                 pLDDT (ps ! i) = None)"
      by (rule model_validate_copies)
  qed
qed

theorem get_prediction_projects_valid_items_witness:
  "\<exists>ps. get_prediction exact_library
          (always (ok_json (JArr
             [JObj [(''entryId'', JStr ''AF-P31645-F1''), (''uniprotAccession'', JStr ''P31645''),
                    (''uniprotStart'', JInt 1), (''pLDDT'', JFloat 82.5),
                    (''pdbUrl'', JStr ''https://alphafold.ebi.ac.uk/files/AF-P31645-F1.pdb'')],
              JObj [(''entryId'', JStr ''AF-P31645-F2''), (''uniprotAccession'', JStr ''P31645''),
                    (''uniprotId'', JNull)]])))
          ''P31645'' [] = (Inr ps, [Get (prediction_url ''P31645'') []]) \<and>
        length ps = 2"
proof -
  let ?a = "JObj [(''entryId'', JStr ''AF-P31645-F1''), (''uniprotAccession'', JStr ''P31645''),
                  (''uniprotStart'', JInt 1), (''pLDDT'', JFloat 82.5),
                  (''pdbUrl'', JStr ''https://alphafold.ebi.ac.uk/files/AF-P31645-F1.pdb'')]"
  let ?b = "JObj [(''entryId'', JStr ''AF-P31645-F2''), (''uniprotAccession'', JStr ''P31645''),
                  (''uniprotId'', JNull)]"
  have fetch: "private_get (always (ok_json (JArr [?a, ?b]))) (prediction_url ''P31645'') True [] [] =
                 (Inr (Parsed (JArr [?a, ?b])), [Get (prediction_url ''P31645'') []])"
    by (simp add: private_get_ok_json)
  have nonempty: "[?a, ?b] \<noteq> []" by simp
  have a: "\<exists>p. model_validate exact_library ?a = Inr p"
    by (simp add: model_validate_def required_field_def optional_field_def validate_str_def
        validate_int_def validate_float_def validate_url_def exact_library_def)
  have b: "\<exists>p. model_validate exact_library ?b = Inr p"
    by (simp add: model_validate_def required_field_def optional_field_def validate_str_def
        validate_int_def validate_float_def validate_url_def exact_library_def)
  have valid: "\<forall>item \<in> set [?a, ?b]. \<exists>p. model_validate exact_library item = Inr p"
    using a b by simp
  note inst = get_prediction_projects_valid_items [OF fetch nonempty valid]
  from inst obtain ps where
    H: "get_prediction exact_library (always (ok_json (JArr [?a, ?b]))) ''P31645'' [] =
          (Inr ps, [Get (prediction_url ''P31645'') []]) \<and>
        length ps = length [?a, ?b] \<and> True"
    by (elim exE conjE) (rule that, intro conjI TrueI)
  have len: "length ps = 2" using conjunct1 [OF conjunct2 [OF H]] by simp
  show ?thesis
    by (rule exI [of _ ps], rule conjI, rule conjunct1 [OF H], rule len)
qed

section \<open>The search route: reading the two replies\<close>

lemma bindE_simps: "bindE (Inl e) f = Inl e" "bindE (Inr x) f = f x"
  by (simp_all add: bindE_def)

lemma bindE_Inr: "bindE m f = Inr y \<longleftrightarrow> (\<exists>x. m = Inr x \<and> f x = Inr y)"
  by (cases m) (simp_all add: bindE_def)


lemma method_get_Inr: "method_get v key fallback = Inr r \<longleftrightarrow>
   (\<exists>kvs. v = JObj kvs \<and> r = (case map_of kvs key of None \<Rightarrow> fallback | Some x \<Rightarrow> x))"
  by (cases v) (auto split: option.splits)

lemma method_get_JObj:
  "method_get (JObj kvs) key fallback = Inr r \<longleftrightarrow>
     (case map_of kvs key of None \<Rightarrow> fallback | Some v \<Rightarrow> v) = r"
  by (auto split: option.splits)

lemma subscript_Inr: "subscript v key = Inr r \<longleftrightarrow> (\<exists>kvs. v = JObj kvs \<and> map_of kvs key = Some r)"
  by (cases v) (auto split: option.splits)

lemma index0_JObj: "index0 v = Inr (JObj kvs) \<longleftrightarrow> (\<exists>rest. v = JArr (JObj kvs # rest))"
  by (induction v rule: index0.induct) auto




lemma py_str_JStr: "py_str L (JStr s) = s"
  by (simp add: py_str_def)

lemma first_hit_no_results:
  assumes "map_of kvs ''results'' = Some (JArr [])"
  shows "first_hit query (JObj kvs) = Inl (HTTPException 404
           (''No UniProt entry found for query '' @ [CHR 0x27] @ query @ [CHR 0x27] @ ''.''))"
  using assms by (simp add: first_hit_def bindE_simps)


lemma first_hit_Inr:
  assumes "first_hit query uni = Inr h"
  shows "\<exists>ukvs results. uni = JObj ukvs \<and> map_of ukvs ''results'' = Some results \<and>
           index0 results = Inr h"
  using assms unfolding first_hit_def
  by (auto simp: bindE_Inr method_get_Inr subscript_Inr split: if_splits)

lemma gene_names_of_absent:
  assumes "map_of hit ''genes'' = None"
  shows "gene_names_of (JObj hit) = Inr (JStr [])"
  using assms by (simp add: gene_names_of_def bindE_simps)




lemma read_hit_no_results:
  assumes "map_of kvs ''results'' = Some (JArr [])"
  shows "read_hit query (JObj kvs) = Inl (HTTPException 404
           (''No UniProt entry found for query '' @ [CHR 0x27] @ query @ [CHR 0x27] @ ''.''))"
  by (simp add: read_hit_def first_hit_no_results [OF assms] bindE_simps)


lemma read_hit_Inr:
  assumes "read_hit query uni = Inr (accession, gene_names, protein_name, organism)"
  shows "\<exists>ukvs hit rest. uni = JObj ukvs \<and>
           map_of ukvs ''results'' = Some (JArr (JObj hit # rest)) \<and>
           map_of hit ''primaryAccession'' = Some accession \<and>
           gene_names_of (JObj hit) = Inr gene_names \<and>
           protein_name_of (JObj hit) = Inr protein_name \<and>
           organism_of (JObj hit) = Inr organism"
proof -
  from assms obtain h where h: "first_hit query uni = Inr h"
    and acc: "subscript h ''primaryAccession'' = Inr accession"
    and g: "gene_names_of h = Inr gene_names"
    and p: "protein_name_of h = Inr protein_name"
    and o: "organism_of h = Inr organism"
    unfolding read_hit_def by (auto simp: bindE_Inr)
  from acc obtain hit where hit: "h = JObj hit" "map_of hit ''primaryAccession'' = Some accession"
    unfolding subscript_Inr by blast
  from first_hit_Inr [OF h] obtain ukvs results where
    u: "uni = JObj ukvs" "map_of ukvs ''results'' = Some results" "index0 results = Inr h"
    by blast
  from u(3) hit(1) have "index0 results = Inr (JObj hit)" by simp
  then obtain rest where "results = JArr (JObj hit # rest)"
    unfolding index0_JObj by blast
  with u hit g p o show ?thesis by blast
qed

lemma gene_names_of_iff:
  "gene_names_of (JObj hit) = Inr g \<longleftrightarrow>
     (\<exists>gene more gene_name.
        (case map_of hit ''genes'' of None \<Rightarrow> JArr [JObj []] | Some v \<Rightarrow> v) =
          JArr (JObj gene # more) \<and>
        (case map_of gene ''geneName'' of None \<Rightarrow> JObj [] | Some v \<Rightarrow> v) = JObj gene_name \<and>
        g = (case map_of gene_name ''value'' of None \<Rightarrow> JStr [] | Some v \<Rightarrow> v))"
proof
  assume "gene_names_of (JObj hit) = Inr g"
  then obtain genes gene gn where
    a: "method_get (JObj hit) ''genes'' (JArr [JObj []]) = Inr genes"
    and b: "index0 genes = Inr gene"
    and c: "method_get gene ''geneName'' (JObj []) = Inr gn"
    and d: "method_get gn ''value'' (JStr []) = Inr g"
    unfolding gene_names_of_def bindE_Inr by blast
  from c obtain gk where gk: "gene = JObj gk"
    "gn = (case map_of gk ''geneName'' of None \<Rightarrow> JObj [] | Some v \<Rightarrow> v)"
    unfolding method_get_Inr by blast
  from d obtain nk where nk: "gn = JObj nk"
    "g = (case map_of nk ''value'' of None \<Rightarrow> JStr [] | Some v \<Rightarrow> v)"
    unfolding method_get_Inr by blast
  from b gk(1) have "index0 genes = Inr (JObj gk)" by simp
  then obtain more where more: "genes = JArr (JObj gk # more)"
    unfolding index0_JObj by blast
  from a have "genes = (case map_of hit ''genes'' of None \<Rightarrow> JArr [JObj []] | Some v \<Rightarrow> v)"
    by (simp split: option.splits)
  with more gk nk show "\<exists>gene more gene_name.
        (case map_of hit ''genes'' of None \<Rightarrow> JArr [JObj []] | Some v \<Rightarrow> v) =
          JArr (JObj gene # more) \<and>
        (case map_of gene ''geneName'' of None \<Rightarrow> JObj [] | Some v \<Rightarrow> v) = JObj gene_name \<and>
        g = (case map_of gene_name ''value'' of None \<Rightarrow> JStr [] | Some v \<Rightarrow> v)"
    by metis
next
  assume "\<exists>gene more gene_name.
        (case map_of hit ''genes'' of None \<Rightarrow> JArr [JObj []] | Some v \<Rightarrow> v) =
          JArr (JObj gene # more) \<and>
        (case map_of gene ''geneName'' of None \<Rightarrow> JObj [] | Some v \<Rightarrow> v) = JObj gene_name \<and>
        g = (case map_of gene_name ''value'' of None \<Rightarrow> JStr [] | Some v \<Rightarrow> v)"
  then obtain gene more gene_name where
    a: "(case map_of hit ''genes'' of None \<Rightarrow> JArr [JObj []] | Some v \<Rightarrow> v) =
          JArr (JObj gene # more)"
    and b: "(case map_of gene ''geneName'' of None \<Rightarrow> JObj [] | Some v \<Rightarrow> v) = JObj gene_name"
    and c: "g = (case map_of gene_name ''value'' of None \<Rightarrow> JStr [] | Some v \<Rightarrow> v)"
    by blast
  have 1: "method_get (JObj hit) ''genes'' (JArr [JObj []]) = Inr (JArr (JObj gene # more))"
    using a by (simp split: option.splits)
  have 2: "method_get (JObj gene) ''geneName'' (JObj []) = Inr (JObj gene_name)"
    using b by (simp split: option.splits)
  have 3: "method_get (JObj gene_name) ''value'' (JStr []) = Inr g"
    using c by (simp split: option.splits)
  show "gene_names_of (JObj hit) = Inr g"
    unfolding gene_names_of_def by (simp only: 1 2 3 bindE_simps index0.simps)
qed

lemma protein_name_of_iff:
  "protein_name_of (JObj hit) = Inr p \<longleftrightarrow>
     (\<exists>description recommended full_name.
        (case map_of hit ''proteinDescription'' of None \<Rightarrow> JObj [] | Some v \<Rightarrow> v) =
          JObj description \<and>
        (case map_of description ''recommendedName'' of None \<Rightarrow> JObj [] | Some v \<Rightarrow> v) =
          JObj recommended \<and>
        (case map_of recommended ''fullName'' of None \<Rightarrow> JObj [] | Some v \<Rightarrow> v) =
          JObj full_name \<and>
        p = (case map_of full_name ''value'' of None \<Rightarrow> JStr [] | Some v \<Rightarrow> v))"
proof
  assume "protein_name_of (JObj hit) = Inr p"
  then obtain d r f where
    a: "method_get (JObj hit) ''proteinDescription'' (JObj []) = Inr d"
    and b: "method_get d ''recommendedName'' (JObj []) = Inr r"
    and c: "method_get r ''fullName'' (JObj []) = Inr f"
    and e: "method_get f ''value'' (JStr []) = Inr p"
    unfolding protein_name_of_def bindE_Inr by blast
  from b obtain dk where dk: "d = JObj dk" unfolding method_get_Inr by blast
  from c obtain rk where rk: "r = JObj rk" unfolding method_get_Inr by blast
  from e obtain fk where fk: "f = JObj fk" unfolding method_get_Inr by blast
  from a b c e show "\<exists>description recommended full_name.
        (case map_of hit ''proteinDescription'' of None \<Rightarrow> JObj [] | Some v \<Rightarrow> v) =
          JObj description \<and>
        (case map_of description ''recommendedName'' of None \<Rightarrow> JObj [] | Some v \<Rightarrow> v) =
          JObj recommended \<and>
        (case map_of recommended ''fullName'' of None \<Rightarrow> JObj [] | Some v \<Rightarrow> v) =
          JObj full_name \<and>
        p = (case map_of full_name ''value'' of None \<Rightarrow> JStr [] | Some v \<Rightarrow> v)"
    unfolding dk rk fk method_get_JObj by metis
next
  assume "\<exists>description recommended full_name.
        (case map_of hit ''proteinDescription'' of None \<Rightarrow> JObj [] | Some v \<Rightarrow> v) =
          JObj description \<and>
        (case map_of description ''recommendedName'' of None \<Rightarrow> JObj [] | Some v \<Rightarrow> v) =
          JObj recommended \<and>
        (case map_of recommended ''fullName'' of None \<Rightarrow> JObj [] | Some v \<Rightarrow> v) =
          JObj full_name \<and>
        p = (case map_of full_name ''value'' of None \<Rightarrow> JStr [] | Some v \<Rightarrow> v)"
  then obtain dk rk fk where
    "method_get (JObj hit) ''proteinDescription'' (JObj []) = Inr (JObj dk)"
    "method_get (JObj dk) ''recommendedName'' (JObj []) = Inr (JObj rk)"
    "method_get (JObj rk) ''fullName'' (JObj []) = Inr (JObj fk)"
    "method_get (JObj fk) ''value'' (JStr []) = Inr p"
    unfolding method_get_JObj by metis
  then show "protein_name_of (JObj hit) = Inr p"
    unfolding protein_name_of_def by (simp only: bindE_simps)
qed

lemma organism_of_iff:
  "organism_of (JObj hit) = Inr org \<longleftrightarrow>
     (\<exists>organism.
        (case map_of hit ''organism'' of None \<Rightarrow> JObj [] | Some v \<Rightarrow> v) = JObj organism \<and>
        org = (case map_of organism ''scientificName'' of None \<Rightarrow> JStr [] | Some v \<Rightarrow> v))"
proof
  assume "organism_of (JObj hit) = Inr org"
  then obtain d where
    a: "method_get (JObj hit) ''organism'' (JObj []) = Inr d"
    and b: "method_get d ''scientificName'' (JStr []) = Inr org"
    unfolding organism_of_def bindE_Inr by blast
  from b obtain dk where dk: "d = JObj dk" unfolding method_get_Inr by blast
  from a b show "\<exists>organism.
        (case map_of hit ''organism'' of None \<Rightarrow> JObj [] | Some v \<Rightarrow> v) = JObj organism \<and>
        org = (case map_of organism ''scientificName'' of None \<Rightarrow> JStr [] | Some v \<Rightarrow> v)"
    unfolding dk method_get_JObj by metis
next
  assume "\<exists>organism.
        (case map_of hit ''organism'' of None \<Rightarrow> JObj [] | Some v \<Rightarrow> v) = JObj organism \<and>
        org = (case map_of organism ''scientificName'' of None \<Rightarrow> JStr [] | Some v \<Rightarrow> v)"
  then obtain dk where
    "method_get (JObj hit) ''organism'' (JObj []) = Inr (JObj dk)"
    "method_get (JObj dk) ''scientificName'' (JStr []) = Inr org"
    unfolding method_get_JObj by metis
  then show "organism_of (JObj hit) = Inr org"
    unfolding organism_of_def by (simp only: bindE_simps)
qed

lemma read_hit_on_record:
  assumes "map_of ukvs ''results'' = Some (JArr (JObj hit # rest))"
  shows "read_hit query (JObj ukvs) =
           bindE (subscript (JObj hit) ''primaryAccession'') (\<lambda>accession.
           bindE (gene_names_of (JObj hit)) (\<lambda>gene_names.
           bindE (protein_name_of (JObj hit)) (\<lambda>protein_name.
           bindE (organism_of (JObj hit)) (\<lambda>organism.
           Inr (accession, gene_names, protein_name, organism)))))"
  using assms by (simp add: read_hit_def first_hit_def bindE_simps)

lemma read_hit_iff:
  "read_hit query uni = Inr (accession, gene_names, protein_name, organism) \<longleftrightarrow>
     (\<exists>ukvs hit rest. uni = JObj ukvs \<and>
        map_of ukvs ''results'' = Some (JArr (JObj hit # rest)) \<and>
        map_of hit ''primaryAccession'' = Some accession \<and>
        gene_names_of (JObj hit) = Inr gene_names \<and>
        protein_name_of (JObj hit) = Inr protein_name \<and>
        organism_of (JObj hit) = Inr organism)"
proof
  assume "read_hit query uni = Inr (accession, gene_names, protein_name, organism)"
  then show "\<exists>ukvs hit rest. uni = JObj ukvs \<and>
        map_of ukvs ''results'' = Some (JArr (JObj hit # rest)) \<and>
        map_of hit ''primaryAccession'' = Some accession \<and>
        gene_names_of (JObj hit) = Inr gene_names \<and>
        protein_name_of (JObj hit) = Inr protein_name \<and>
        organism_of (JObj hit) = Inr organism"
    by (rule read_hit_Inr)
next
  assume "\<exists>ukvs hit rest. uni = JObj ukvs \<and>
        map_of ukvs ''results'' = Some (JArr (JObj hit # rest)) \<and>
        map_of hit ''primaryAccession'' = Some accession \<and>
        gene_names_of (JObj hit) = Inr gene_names \<and>
        protein_name_of (JObj hit) = Inr protein_name \<and>
        organism_of (JObj hit) = Inr organism"
  then obtain ukvs hit rest where u: "uni = JObj ukvs"
    and r: "map_of ukvs ''results'' = Some (JArr (JObj hit # rest))"
    and a: "map_of hit ''primaryAccession'' = Some accession"
    and g: "gene_names_of (JObj hit) = Inr gene_names"
    and p: "protein_name_of (JObj hit) = Inr protein_name"
    and o: "organism_of (JObj hit) = Inr organism"
    by blast
  show "read_hit query uni = Inr (accession, gene_names, protein_name, organism)"
    unfolding u read_hit_on_record [OF r] g p o by (simp add: a bindE_simps)
qed


lemma read_hit_kb_reply:
  "read_hit ''SLC6A4'' kb_reply =
     Inr (JStr ''P31645'', JStr ''SLC6A4'', JStr [], JStr ''Homo sapiens'')"
  by (simp add: kb_reply_def read_hit_def first_hit_def gene_names_of_def protein_name_of_def
      organism_of_def bindE_simps)


lemma search_result_Inr:
  assumes "search_result query (accession, gene_names, protein_name, organism) model = Inr result"
  shows "\<exists>mkvs. model = JObj mkvs \<and>
           result = JObj
             [(''query'', JStr query),
              (''uniprot_accession'', accession),
              (''gene_name'', gene_names),
              (''protein_name'', protein_name),
              (''organism'', organism),
              (''pdbUrl'', case map_of mkvs ''pdbUrl'' of None \<Rightarrow> JNull | Some v \<Rightarrow> v),
              (''cifUrl'', case map_of mkvs ''cifUrl'' of None \<Rightarrow> JNull | Some v \<Rightarrow> v),
              (''pLDDT'', case map_of mkvs ''pLDDT'' of None \<Rightarrow> JNull | Some v \<Rightarrow> v),
              (''source'', JStr ''AlphaFold DB'')]"
  using assms unfolding search_result_def
  by (auto simp: bindE_Inr method_get_Inr)


lemma read_model_Inr:
  assumes "read_model L query (accession, gene_names, protein_name, organism) data = Inr result"
  shows "\<exists>mkvs others. data = JArr (JObj mkvs # others) \<and>
           result = JObj
             [(''query'', JStr query),
              (''uniprot_accession'', accession),
              (''gene_name'', gene_names),
              (''protein_name'', protein_name),
              (''organism'', organism),
              (''pdbUrl'', case map_of mkvs ''pdbUrl'' of None \<Rightarrow> JNull | Some v \<Rightarrow> v),
              (''cifUrl'', case map_of mkvs ''cifUrl'' of None \<Rightarrow> JNull | Some v \<Rightarrow> v),
              (''pLDDT'', case map_of mkvs ''pLDDT'' of None \<Rightarrow> JNull | Some v \<Rightarrow> v),
              (''source'', JStr ''AlphaFold DB'')]"
proof -
  from assms obtain model where m: "index0 data = Inr model"
    and r: "search_result query (accession, gene_names, protein_name, organism) model = Inr result"
    unfolding read_model_def by (auto simp: bindE_Inr split: if_splits)
  from search_result_Inr [OF r] obtain mkvs where mk: "model = JObj mkvs"
    and res: "result = JObj
             [(''query'', JStr query),
              (''uniprot_accession'', accession),
              (''gene_name'', gene_names),
              (''protein_name'', protein_name),
              (''organism'', organism),
              (''pdbUrl'', case map_of mkvs ''pdbUrl'' of None \<Rightarrow> JNull | Some v \<Rightarrow> v),
              (''cifUrl'', case map_of mkvs ''cifUrl'' of None \<Rightarrow> JNull | Some v \<Rightarrow> v),
              (''pLDDT'', case map_of mkvs ''pLDDT'' of None \<Rightarrow> JNull | Some v \<Rightarrow> v),
              (''source'', JStr ''AlphaFold DB'')]"
    by blast
  from m mk have "index0 data = Inr (JObj mkvs)" by simp
  then obtain others where "data = JArr (JObj mkvs # others)"
    unfolding index0_JObj by blast
  with res show ?thesis by blast
qed

lemma read_model_on_list:
  "read_model L query hit_fields (JArr (model # others)) = search_result query hit_fields model"
  by (simp add: read_model_def bindE_simps)

lemma search_result_JObj:
  "search_result query (accession, gene_names, protein_name, organism) (JObj mkvs) =
     Inr (JObj
       [(''query'', JStr query),
        (''uniprot_accession'', accession),
        (''gene_name'', gene_names),
        (''protein_name'', protein_name),
        (''organism'', organism),
        (''pdbUrl'', case map_of mkvs ''pdbUrl'' of None \<Rightarrow> JNull | Some v \<Rightarrow> v),
        (''cifUrl'', case map_of mkvs ''cifUrl'' of None \<Rightarrow> JNull | Some v \<Rightarrow> v),
        (''pLDDT'', case map_of mkvs ''pLDDT'' of None \<Rightarrow> JNull | Some v \<Rightarrow> v),
        (''source'', JStr ''AlphaFold DB'')])"
  by (simp add: search_result_def bindE_def split: option.splits)

lemma search_by_gene_Inr:
  assumes "search_by_gene L client query tr = (Inr result, tr')"
  shows "\<exists>uni hit_fields data tr1.
           private_get client UNIPROT_SEARCH_URL True (search_params query) tr =
             (Inr (Parsed uni), tr1) \<and>
           read_hit query uni = Inr hit_fields \<and>
           private_get client (prediction_url (py_str L (fst hit_fields))) True [] tr1 =
             (Inr (Parsed data), tr') \<and>
           read_model L query hit_fields data = Inr result"
  using assms unfolding search_by_gene_def
  by (auto split: prod.splits sum.splits fetched.splits)

lemma search_by_gene_on_replies:
  assumes "private_get client UNIPROT_SEARCH_URL True (search_params query) tr =
             (Inr (Parsed uni), tr1)"
    and "read_hit query uni = Inr (accession, gene_names, protein_name, organism)"
    and "private_get client (prediction_url (py_str L accession)) True [] tr1 =
             (Inr (Parsed data), tr2)"
  shows "search_by_gene L client query tr =
           (read_model L query (accession, gene_names, protein_name, organism) data, tr2)"
  using assms by (simp add: search_by_gene_def)

lemma search_by_gene_kb_reply:
  "search_by_gene exact_library (routed (ok_json kb_reply) (ok_json data)) ''SLC6A4'' [] =
     (read_model exact_library ''SLC6A4''
        (JStr ''P31645'', JStr ''SLC6A4'', JStr [], JStr ''Homo sapiens'') data,
      [Get UNIPROT_SEARCH_URL (search_params ''SLC6A4''), Get (prediction_url ''P31645'') []])"
  by (simp add: search_by_gene_def private_get_routed_search read_hit_kb_reply py_str_def
      private_get_routed_prediction)

section \<open>The search route: results\<close>

text \<open>
  Claim C5. When the knowledge base answers a search with a dict whose \<^verbatim>\<open>results\<close> is
  the empty list, the search handler raises an HTTPException with status 404 whose
  detail names the query between single quotes, and the execution up to there holds no
  request to the prediction endpoint, for any accession.
\<close>

theorem search_by_gene_no_results:
  assumes fetch: "private_get client UNIPROT_SEARCH_URL True (search_params query) tr =
                    (Inr (Parsed (JObj kvs)), tr1)"
    and empty: "map_of kvs ''results'' = Some (JArr [])"
  shows "search_by_gene L client query tr =
           (Inl (HTTPException 404
              (''No UniProt entry found for query '' @ [CHR 0x27] @ query @ [CHR 0x27] @ ''.'')),
            tr1) \<and>
         (\<exists>new. tr1 = tr @ new \<and>
            (\<forall>accession params. Get (prediction_url accession) params \<notin> set new))"
proof
  show "search_by_gene L client query tr =
           (Inl (HTTPException 404
              (''No UniProt entry found for query '' @ [CHR 0x27] @ query @ [CHR 0x27] @ ''.'')),
            tr1)"
    by (simp add: search_by_gene_def fetch read_hit_no_results [OF empty])
  from private_get_events [OF fetch] obtain new where
    new: "tr1 = tr @ new"
    "\<forall>e \<in> set new. e = Get UNIPROT_SEARCH_URL (search_params query) \<or> (\<exists>d. e = Sleep d)"
    by blast
  have "Get (prediction_url accession) params \<notin> set new" for accession params
    using new(2) search_url_is_not_prediction_url [of accession] by auto
  with new(1) show "\<exists>new. tr1 = tr @ new \<and>
            (\<forall>accession params. Get (prediction_url accession) params \<notin> set new)"
    by blast
qed

theorem search_by_gene_no_results_witness:
  "search_by_gene exact_library (always (ok_json (JObj [(''results'', JArr [])]))) ''SLC6A4'' [] =
     (Inl (HTTPException 404 (''No UniProt entry found for query '' @ [CHR 0x27] @ ''SLC6A4'' @ [CHR 0x27] @ ''.'')),
      [Get UNIPROT_SEARCH_URL (search_params ''SLC6A4'')])"
proof -
  have fetch: "private_get (always (ok_json (JObj [(''results'', JArr [])]))) UNIPROT_SEARCH_URL True
                 (search_params ''SLC6A4'') [] =
               (Inr (Parsed (JObj [(''results'', JArr [])])),
                [Get UNIPROT_SEARCH_URL (search_params ''SLC6A4'')])"
    by (simp add: private_get_ok_json)
  have empty: "map_of [(''results'', JArr [])] ''results'' = Some (JArr [])" by simp
  show ?thesis
    by (rule conjunct1 [OF search_by_gene_no_results [OF fetch empty]])
qed

text \<open>
  Claim C6. The claim has every missing or malformed level of the nested fields, a
  present but empty container included, degrade to the empty string. For a record
  whose \<^verbatim>\<open>genes\<close> is the empty list, \<^verbatim>\<open>hit.get("genes", [{}])[0]\<close> raises an
  IndexError that the handler does not catch.
\<close>

theorem search_by_gene_empty_genes_raises:
  "fst (search_by_gene exact_library
          (always (ok_json (JObj [(''results'',
             JArr [JObj [(''primaryAccession'', JStr ''P31645''), (''genes'', JArr [])]])])))
          ''SLC6A4'' []) = Inl (Uncaught IndexError)"
  by (simp add: search_by_gene_def private_get_ok_json read_hit_def first_hit_def
      gene_names_of_def bindE_simps)

text \<open>
  Claim C7. After the first stage has read the accession and the names from the hit, the
  second stage raises an HTTPException with status 404 naming that accession when the
  fetched prediction payload is falsy (the empty list among others), and when the payload
  is a list with a first element it builds the result from that element alone: the
  remaining models do not occur in it.
\<close>

theorem search_by_gene_second_stage:
  assumes fetch1: "private_get client UNIPROT_SEARCH_URL True (search_params query) tr =
                     (Inr (Parsed uni), tr1)"
    and hit: "read_hit query uni = Inr (accession, gene_names, protein_name, organism)"
    and fetch2: "private_get client (prediction_url (py_str L accession)) True [] tr1 =
                   (Inr (Parsed data), tr2)"
  shows "(\<not> truthy data \<longrightarrow>
            search_by_gene L client query tr =
              (Inl (HTTPException 404
                 (''No AlphaFold prediction for accession '' @ py_str L accession @ ''.'')), tr2)) \<and>
         (\<forall>model others. data = JArr (model # others) \<longrightarrow>
            search_by_gene L client query tr =
              (search_result query (accession, gene_names, protein_name, organism) model, tr2))"
  using fetch2
  by (simp add: search_by_gene_def fetch1 hit read_model_def bindE_simps)

theorem search_by_gene_second_stage_witness:
  "search_by_gene exact_library (routed (ok_json kb_reply) (ok_json (JArr []))) ''SLC6A4'' [] =
     (Inl (HTTPException 404 ''No AlphaFold prediction for accession P31645.''),
      [Get UNIPROT_SEARCH_URL (search_params ''SLC6A4''), Get (prediction_url ''P31645'') []]) \<and>
   search_by_gene exact_library
     (routed (ok_json kb_reply)
        (ok_json (JArr [JObj [(''pdbUrl'', JStr ''https://.../F1.pdb'')],
                        JObj [(''pdbUrl'', JStr ''https://.../F2.pdb'')]])))
     ''SLC6A4'' [] =
     (Inr (JObj
        [(''query'', JStr ''SLC6A4''),
         (''uniprot_accession'', JStr ''P31645''),
         (''gene_name'', JStr ''SLC6A4''),
         (''protein_name'', JStr []),
         (''organism'', JStr ''Homo sapiens''),
         (''pdbUrl'', JStr ''https://.../F1.pdb''),
         (''cifUrl'', JNull),
         (''pLDDT'', JNull),
         (''source'', JStr ''AlphaFold DB'')]),
      [Get UNIPROT_SEARCH_URL (search_params ''SLC6A4''), Get (prediction_url ''P31645'') []])"
proof -
  let ?two = "JArr [JObj [(''pdbUrl'', JStr ''https://.../F1.pdb'')],
                    JObj [(''pdbUrl'', JStr ''https://.../F2.pdb'')]]"
  let ?tr1 = "[Get UNIPROT_SEARCH_URL (search_params ''SLC6A4'')]"
  let ?tr2 = "[Get UNIPROT_SEARCH_URL (search_params ''SLC6A4''), Get (prediction_url ''P31645'') []]"
  have acc: "py_str exact_library (JStr ''P31645'') = ''P31645''"
    by (simp add: py_str_def)
  have f1: "private_get (routed (ok_json kb_reply) (ok_json data)) UNIPROT_SEARCH_URL True
              (search_params ''SLC6A4'') [] = (Inr (Parsed kb_reply), ?tr1)" for data
    by (simp add: private_get_routed_search)
  have f2: "private_get (routed (ok_json kb_reply) (ok_json data))
              (prediction_url (py_str exact_library (JStr ''P31645''))) True [] ?tr1 =
              (Inr (Parsed data), ?tr2)" for data
    by (simp add: private_get_routed_prediction acc)
  note empty = search_by_gene_second_stage [OF f1 read_hit_kb_reply f2, of "JArr []"]
  note two = search_by_gene_second_stage [OF f1 read_hit_kb_reply f2, of ?two]
  have a: "search_by_gene exact_library (routed (ok_json kb_reply) (ok_json (JArr []))) ''SLC6A4'' [] =
     (Inl (HTTPException 404 ''No AlphaFold prediction for accession P31645.''), ?tr2)"
    using conjunct1 [OF empty] by (simp add: acc)
  have b: "search_by_gene exact_library (routed (ok_json kb_reply) (ok_json ?two)) ''SLC6A4'' [] =
     (search_result ''SLC6A4'' (JStr ''P31645'', JStr ''SLC6A4'', JStr [], JStr ''Homo sapiens'')
        (JObj [(''pdbUrl'', JStr ''https://.../F1.pdb'')]), ?tr2)"
    using conjunct2 [OF two] by blast
  show ?thesis
    using a b by (simp add: search_result_def bindE_simps)
qed

text \<open>
  Claim C8. The search handler returns exactly when the knowledge base has answered with
  a dict whose \<^verbatim>\<open>results\<close> starts with a dict that has a \<^verbatim>\<open>primaryAccession\<close>
  and whose nested fields can be read (\<^verbatim>\<open>genes\<close>, or its default, starts with a dict;
  \<^verbatim>\<open>geneName\<close>, \<^verbatim>\<open>proteinDescription\<close>, \<^verbatim>\<open>recommendedName\<close>,
  \<^verbatim>\<open>fullName\<close> and \<^verbatim>\<open>organism\<close>, or their defaults, are dicts), and the
  prediction service has answered with a list that starts with a dict. The returned
  object then holds, in this order, the query, the \<^verbatim>\<open>primaryAccession\<close> of the
  record, \<^verbatim>\<open>genes[0].geneName.value\<close>,
  \<^verbatim>\<open>proteinDescription.recommendedName.fullName.value\<close> and
  \<^verbatim>\<open>organism.scientificName\<close> of the record (the empty string where the last key is
  missing), the \<^verbatim>\<open>pdbUrl\<close>, \<^verbatim>\<open>cifUrl\<close> and \<^verbatim>\<open>pLDDT\<close> of the first model
  as they are (null when the model lacks the key), and the source label
  \<^verbatim>\<open>AlphaFold DB\<close>.
\<close>

theorem search_by_gene_result:
  "search_by_gene L client query tr = (Inr result, tr') \<longleftrightarrow>
     (\<exists>ukvs hit rest accession gene more gene_name description recommended full_name org
         mkvs others tr1.
        private_get client UNIPROT_SEARCH_URL True (search_params query) tr =
          (Inr (Parsed (JObj ukvs)), tr1) \<and>
        map_of ukvs ''results'' = Some (JArr (JObj hit # rest)) \<and>
        map_of hit ''primaryAccession'' = Some accession \<and>
        (case map_of hit ''genes'' of None \<Rightarrow> JArr [JObj []] | Some v \<Rightarrow> v) =
          JArr (JObj gene # more) \<and>
        (case map_of gene ''geneName'' of None \<Rightarrow> JObj [] | Some v \<Rightarrow> v) = JObj gene_name \<and>
        (case map_of hit ''proteinDescription'' of None \<Rightarrow> JObj [] | Some v \<Rightarrow> v) =
          JObj description \<and>
        (case map_of description ''recommendedName'' of None \<Rightarrow> JObj [] | Some v \<Rightarrow> v) =
          JObj recommended \<and>
        (case map_of recommended ''fullName'' of None \<Rightarrow> JObj [] | Some v \<Rightarrow> v) =
          JObj full_name \<and>
        (case map_of hit ''organism'' of None \<Rightarrow> JObj [] | Some v \<Rightarrow> v) = JObj org \<and>
        private_get client (prediction_url (py_str L accession)) True [] tr1 =
          (Inr (Parsed (JArr (JObj mkvs # others))), tr') \<and>
        result = JObj
          [(''query'', JStr query),
           (''uniprot_accession'', accession),
           (''gene_name'', case map_of gene_name ''value'' of None \<Rightarrow> JStr [] | Some v \<Rightarrow> v),
           (''protein_name'', case map_of full_name ''value'' of None \<Rightarrow> JStr [] | Some v \<Rightarrow> v),
           (''organism'', case map_of org ''scientificName'' of None \<Rightarrow> JStr [] | Some v \<Rightarrow> v),
           (''pdbUrl'', case map_of mkvs ''pdbUrl'' of None \<Rightarrow> JNull | Some v \<Rightarrow> v),
           (''cifUrl'', case map_of mkvs ''cifUrl'' of None \<Rightarrow> JNull | Some v \<Rightarrow> v),
           (''pLDDT'', case map_of mkvs ''pLDDT'' of None \<Rightarrow> JNull | Some v \<Rightarrow> v),
           (''source'', JStr ''AlphaFold DB'')])"
  (is "?run \<longleftrightarrow> ?shape")
proof
  assume ok: ?run
  from search_by_gene_Inr [OF ok] obtain uni hit_fields data tr1 where
    f1: "private_get client UNIPROT_SEARCH_URL True (search_params query) tr =
           (Inr (Parsed uni), tr1)"
    and rh: "read_hit query uni = Inr hit_fields"
    and f2: "private_get client (prediction_url (py_str L (fst hit_fields))) True [] tr1 =
           (Inr (Parsed data), tr')"
    and rm: "read_model L query hit_fields data = Inr result"
    by blast
  obtain accession gene_names protein_name organism where
    hf: "hit_fields = (accession, gene_names, protein_name, organism)"
    by (cases hit_fields) blast
  from rh [unfolded hf read_hit_iff] obtain ukvs hit rest where
    u: "uni = JObj ukvs"
    and r: "map_of ukvs ''results'' = Some (JArr (JObj hit # rest))"
    and a: "map_of hit ''primaryAccession'' = Some accession"
    and g: "gene_names_of (JObj hit) = Inr gene_names"
    and p: "protein_name_of (JObj hit) = Inr protein_name"
    and o: "organism_of (JObj hit) = Inr organism"
    by blast
  from g [unfolded gene_names_of_iff] obtain gene more gene_name where
    g1: "(case map_of hit ''genes'' of None \<Rightarrow> JArr [JObj []] | Some v \<Rightarrow> v) =
           JArr (JObj gene # more)"
    and g2: "(case map_of gene ''geneName'' of None \<Rightarrow> JObj [] | Some v \<Rightarrow> v) = JObj gene_name"
    and g3: "gene_names = (case map_of gene_name ''value'' of None \<Rightarrow> JStr [] | Some v \<Rightarrow> v)"
    by blast
  from p [unfolded protein_name_of_iff] obtain description recommended full_name where
    p1: "(case map_of hit ''proteinDescription'' of None \<Rightarrow> JObj [] | Some v \<Rightarrow> v) =
           JObj description"
    and p2: "(case map_of description ''recommendedName'' of None \<Rightarrow> JObj [] | Some v \<Rightarrow> v) =
           JObj recommended"
    and p3: "(case map_of recommended ''fullName'' of None \<Rightarrow> JObj [] | Some v \<Rightarrow> v) =
           JObj full_name"
    and p4: "protein_name = (case map_of full_name ''value'' of None \<Rightarrow> JStr [] | Some v \<Rightarrow> v)"
    by blast
  from o [unfolded organism_of_iff] obtain org where
    o1: "(case map_of hit ''organism'' of None \<Rightarrow> JObj [] | Some v \<Rightarrow> v) = JObj org"
    and o2: "organism = (case map_of org ''scientificName'' of None \<Rightarrow> JStr [] | Some v \<Rightarrow> v)"
    by blast
  from read_model_Inr [OF rm [unfolded hf]] obtain mkvs others where
    d: "data = JArr (JObj mkvs # others)"
    and res: "result = JObj
             [(''query'', JStr query),
              (''uniprot_accession'', accession),
              (''gene_name'', gene_names),
              (''protein_name'', protein_name),
              (''organism'', organism),
              (''pdbUrl'', case map_of mkvs ''pdbUrl'' of None \<Rightarrow> JNull | Some v \<Rightarrow> v),
              (''cifUrl'', case map_of mkvs ''cifUrl'' of None \<Rightarrow> JNull | Some v \<Rightarrow> v),
              (''pLDDT'', case map_of mkvs ''pLDDT'' of None \<Rightarrow> JNull | Some v \<Rightarrow> v),
              (''source'', JStr ''AlphaFold DB'')]"
    by blast
  have f1': "private_get client UNIPROT_SEARCH_URL True (search_params query) tr =
               (Inr (Parsed (JObj ukvs)), tr1)"
    using f1 u by simp
  have f2': "private_get client (prediction_url (py_str L accession)) True [] tr1 =
               (Inr (Parsed (JArr (JObj mkvs # others))), tr')"
    using f2 hf d by simp
  show ?shape
    apply (rule exI [of _ ukvs], rule exI [of _ hit], rule exI [of _ rest])
    apply (rule exI [of _ accession], rule exI [of _ gene], rule exI [of _ more])
    apply (rule exI [of _ gene_name], rule exI [of _ description])
    apply (rule exI [of _ recommended], rule exI [of _ full_name], rule exI [of _ org])
    apply (rule exI [of _ mkvs], rule exI [of _ others], rule exI [of _ tr1])
    apply (intro conjI)
    subgoal by (rule f1')
    subgoal by (rule r)
    subgoal by (rule a)
    subgoal by (rule g1)
    subgoal by (rule g2)
    subgoal by (rule p1)
    subgoal by (rule p2)
    subgoal by (rule p3)
    subgoal by (rule o1)
    subgoal by (rule f2')
    subgoal unfolding res g3 p4 o2 by (rule refl)
    done
next
  assume ?shape
  then obtain ukvs hit rest accession gene more gene_name description recommended full_name org
      mkvs others tr1 where
    f1: "private_get client UNIPROT_SEARCH_URL True (search_params query) tr =
          (Inr (Parsed (JObj ukvs)), tr1)"
    and r: "map_of ukvs ''results'' = Some (JArr (JObj hit # rest))"
    and a: "map_of hit ''primaryAccession'' = Some accession"
    and g1: "(case map_of hit ''genes'' of None \<Rightarrow> JArr [JObj []] | Some v \<Rightarrow> v) =
          JArr (JObj gene # more)"
    and g2: "(case map_of gene ''geneName'' of None \<Rightarrow> JObj [] | Some v \<Rightarrow> v) = JObj gene_name"
    and p1: "(case map_of hit ''proteinDescription'' of None \<Rightarrow> JObj [] | Some v \<Rightarrow> v) =
          JObj description"
    and p2: "(case map_of description ''recommendedName'' of None \<Rightarrow> JObj [] | Some v \<Rightarrow> v) =
          JObj recommended"
    and p3: "(case map_of recommended ''fullName'' of None \<Rightarrow> JObj [] | Some v \<Rightarrow> v) =
          JObj full_name"
    and o1: "(case map_of hit ''organism'' of None \<Rightarrow> JObj [] | Some v \<Rightarrow> v) = JObj org"
    and f2: "private_get client (prediction_url (py_str L accession)) True [] tr1 =
          (Inr (Parsed (JArr (JObj mkvs # others))), tr')"
    and res: "result = JObj
          [(''query'', JStr query),
           (''uniprot_accession'', accession),
           (''gene_name'', case map_of gene_name ''value'' of None \<Rightarrow> JStr [] | Some v \<Rightarrow> v),
           (''protein_name'', case map_of full_name ''value'' of None \<Rightarrow> JStr [] | Some v \<Rightarrow> v),
           (''organism'', case map_of org ''scientificName'' of None \<Rightarrow> JStr [] | Some v \<Rightarrow> v),
           (''pdbUrl'', case map_of mkvs ''pdbUrl'' of None \<Rightarrow> JNull | Some v \<Rightarrow> v),
           (''cifUrl'', case map_of mkvs ''cifUrl'' of None \<Rightarrow> JNull | Some v \<Rightarrow> v),
           (''pLDDT'', case map_of mkvs ''pLDDT'' of None \<Rightarrow> JNull | Some v \<Rightarrow> v),
           (''source'', JStr ''AlphaFold DB'')]"
    by (elim exE conjE)
  have g: "gene_names_of (JObj hit) =
             Inr (case map_of gene_name ''value'' of None \<Rightarrow> JStr [] | Some v \<Rightarrow> v)"
    unfolding gene_names_of_iff using g1 g2 by blast
  have p: "protein_name_of (JObj hit) =
             Inr (case map_of full_name ''value'' of None \<Rightarrow> JStr [] | Some v \<Rightarrow> v)"
    unfolding protein_name_of_iff using p1 p2 p3 by blast
  have o: "organism_of (JObj hit) =
             Inr (case map_of org ''scientificName'' of None \<Rightarrow> JStr [] | Some v \<Rightarrow> v)"
    unfolding organism_of_iff using o1 by blast
  have rh: "read_hit query (JObj ukvs) =
              Inr (accession,
                   case map_of gene_name ''value'' of None \<Rightarrow> JStr [] | Some v \<Rightarrow> v,
                   case map_of full_name ''value'' of None \<Rightarrow> JStr [] | Some v \<Rightarrow> v,
                   case map_of org ''scientificName'' of None \<Rightarrow> JStr [] | Some v \<Rightarrow> v)"
    unfolding read_hit_iff using r a g p o by blast
  show ?run
    unfolding search_by_gene_on_replies [OF f1 rh f2] read_model_on_list search_result_JObj res
    by (rule refl)
qed

theorem search_by_gene_result_witness:
  "search_by_gene exact_library
     (routed (ok_json kb_full_reply)
        (ok_json (JArr [JObj [(''pdbUrl'', JStr ''https://.../P31645.pdb'')]])))
     ''SLC6A4'' [] =
   (Inr (JObj
      [(''query'', JStr ''SLC6A4''),
       (''uniprot_accession'', JStr ''P31645''),
       (''gene_name'', JStr ''SLC6A4''),
       (''protein_name'', JStr ''Sodium-dependent serotonin transporter''),
       (''organism'', JStr ''Homo sapiens''),
       (''pdbUrl'', JStr ''https://.../P31645.pdb''),
       (''cifUrl'', JNull),
       (''pLDDT'', JNull),
       (''source'', JStr ''AlphaFold DB'')]),
    [Get UNIPROT_SEARCH_URL (search_params ''SLC6A4''), Get (prediction_url ''P31645'') []])"
proof (rule iffD2 [OF search_by_gene_result])
  let ?hit = "[(''primaryAccession'', JStr ''P31645''),
               (''genes'', JArr [JObj [(''geneName'', JObj [(''value'', JStr ''SLC6A4'')])]]),
               (''proteinDescription'',
                  JObj [(''recommendedName'',
                    JObj [(''fullName'',
                      JObj [(''value'', JStr ''Sodium-dependent serotonin transporter'')])])]),
               (''organism'', JObj [(''scientificName'', JStr ''Homo sapiens'')])]"
  let ?client = "routed (ok_json kb_full_reply)
        (ok_json (JArr [JObj [(''pdbUrl'', JStr ''https://.../P31645.pdb'')]]))"
  let ?result = "JObj
      [(''query'', JStr ''SLC6A4''),
       (''uniprot_accession'', JStr ''P31645''),
       (''gene_name'', JStr ''SLC6A4''),
       (''protein_name'', JStr ''Sodium-dependent serotonin transporter''),
       (''organism'', JStr ''Homo sapiens''),
       (''pdbUrl'', JStr ''https://.../P31645.pdb''),
       (''cifUrl'', JNull),
       (''pLDDT'', JNull),
       (''source'', JStr ''AlphaFold DB'')]"
  show "\<exists>ukvs hit rest accession gene more gene_name description recommended full_name org
         mkvs others tr1.
        private_get ?client UNIPROT_SEARCH_URL True (search_params ''SLC6A4'') [] =
          (Inr (Parsed (JObj ukvs)), tr1) \<and>
        map_of ukvs ''results'' = Some (JArr (JObj hit # rest)) \<and>
        map_of hit ''primaryAccession'' = Some accession \<and>
        (case map_of hit ''genes'' of None \<Rightarrow> JArr [JObj []] | Some v \<Rightarrow> v) =
          JArr (JObj gene # more) \<and>
        (case map_of gene ''geneName'' of None \<Rightarrow> JObj [] | Some v \<Rightarrow> v) = JObj gene_name \<and>
        (case map_of hit ''proteinDescription'' of None \<Rightarrow> JObj [] | Some v \<Rightarrow> v) =
          JObj description \<and>
        (case map_of description ''recommendedName'' of None \<Rightarrow> JObj [] | Some v \<Rightarrow> v) =
          JObj recommended \<and>
        (case map_of recommended ''fullName'' of None \<Rightarrow> JObj [] | Some v \<Rightarrow> v) =
          JObj full_name \<and>
        (case map_of hit ''organism'' of None \<Rightarrow> JObj [] | Some v \<Rightarrow> v) = JObj org \<and>
        private_get ?client (prediction_url (py_str exact_library accession)) True [] tr1 =
          (Inr (Parsed (JArr (JObj mkvs # others))),
           [Get UNIPROT_SEARCH_URL (search_params ''SLC6A4''), Get (prediction_url ''P31645'') []]) \<and>
        ?result = JObj
          [(''query'', JStr ''SLC6A4''),
           (''uniprot_accession'', accession),
           (''gene_name'', case map_of gene_name ''value'' of None \<Rightarrow> JStr [] | Some v \<Rightarrow> v),
           (''protein_name'', case map_of full_name ''value'' of None \<Rightarrow> JStr [] | Some v \<Rightarrow> v),
           (''organism'', case map_of org ''scientificName'' of None \<Rightarrow> JStr [] | Some v \<Rightarrow> v),
           (''pdbUrl'', case map_of mkvs ''pdbUrl'' of None \<Rightarrow> JNull | Some v \<Rightarrow> v),
           (''cifUrl'', case map_of mkvs ''cifUrl'' of None \<Rightarrow> JNull | Some v \<Rightarrow> v),
           (''pLDDT'', case map_of mkvs ''pLDDT'' of None \<Rightarrow> JNull | Some v \<Rightarrow> v),
           (''source'', JStr ''AlphaFold DB'')]"
    apply (rule exI [of _ "[(''results'', JArr [JObj ?hit])]"])
    apply (rule exI [of _ ?hit], rule exI [of _ "[]"], rule exI [of _ "JStr ''P31645''"])
    apply (rule exI [of _ "[(''geneName'', JObj [(''value'', JStr ''SLC6A4'')])]"])
    apply (rule exI [of _ "[]"])
    apply (rule exI [of _ "[(''value'', JStr ''SLC6A4'')]"])
    apply (rule exI [of _ "[(''recommendedName'',
                    JObj [(''fullName'',
                      JObj [(''value'', JStr ''Sodium-dependent serotonin transporter'')])])]"])
    apply (rule exI [of _ "[(''fullName'',
                      JObj [(''value'', JStr ''Sodium-dependent serotonin transporter'')])]"])
    apply (rule exI [of _ "[(''value'', JStr ''Sodium-dependent serotonin transporter'')]"])
    apply (rule exI [of _ "[(''scientificName'', JStr ''Homo sapiens'')]"])
    apply (rule exI [of _ "[(''pdbUrl'', JStr ''https://.../P31645.pdb'')]"])
    apply (rule exI [of _ "[]"])
    apply (rule exI [of _ "[Get UNIPROT_SEARCH_URL (search_params ''SLC6A4'')]"])
    apply (intro conjI)
    subgoal by (simp add: private_get_routed_search kb_full_reply_def)
    subgoal by simp
    subgoal by simp
    subgoal by simp
    subgoal by simp
    subgoal by simp
    subgoal by simp
    subgoal by simp
    subgoal by simp
    subgoal by (simp add: private_get_routed_prediction py_str_JStr)
    subgoal by simp
    done
qed

section \<open>Outcomes of the two routes\<close>







end
